theory Spec2Isabelle
  imports Complex_Main
begin

section \<open>Python values\<close>

text \<open>
  The payload handed to the scraper is the result of \<^verbatim>\<open>response.json()\<close>: a tree of
  \<^verbatim>\<open>None\<close>, \<^verbatim>\<open>bool\<close>, \<^verbatim>\<open>int\<close>, \<^verbatim>\<open>float\<close>, \<^verbatim>\<open>str\<close>, \<^verbatim>\<open>list\<close> and \<^verbatim>\<open>dict\<close> values.

  A Python float is a double: a finite value (carried here as the rational number it
  denotes), an infinity, or a NaN. Every finite double is a rational, so a statement proved
  for all \<open>Fin q\<close> covers all finite doubles.

  A Python \<^verbatim>\<open>str\<close> is a sequence of code points. It is modelled as a \<open>string\<close> whose
  characters are the code points 0..255 (ASCII and Latin-1), which is where the texts the
  scraper tests for (\<^verbatim>\<open>'gas'\<close> with and without the acute accent on the a, code point
  225, \<^verbatim>\<open>','\<close>, \<^verbatim>\<open>'.'\<close>, \<^verbatim>\<open>'e'\<close>, \<^verbatim>\<open>'-'\<close>) live.

  A \<^verbatim>\<open>dict\<close> with string keys is an association list read with \<open>map_of\<close>; its keys, in
  iteration order, are \<open>remdups (map fst kv)\<close>.
\<close>

datatype pyfloat = Fin rat | PInf | NInf | NaN

datatype json =
    JNull
  | JBool bool
  | JInt int
  | JFloat pyfloat
  | JStr string
  | JList "json list"
  | JDict "(string \<times> json) list"

text \<open>The exceptions the modelled code can raise.\<close>

datatype error =
    ValueError
  | TypeError
  | AttributeError
  | KeyError
  | IndexError
  | OverflowError

definition bindE :: "error + 'a \<Rightarrow> ('a \<Rightarrow> error + 'b) \<Rightarrow> error + 'b" where
  "bindE m f = (case m of Inl e \<Rightarrow> Inl e | Inr x \<Rightarrow> f x)"

subsection \<open>Floats: comparisons with numbers, truncation\<close>

text \<open>\<^verbatim>\<open>x > c\<close>, \<^verbatim>\<open>x <= c\<close>, \<^verbatim>\<open>x != 0\<close> on a float; every comparison with NaN is false
  except \<^verbatim>\<open>!=\<close>.\<close>

fun float_gt :: "pyfloat \<Rightarrow> rat \<Rightarrow> bool" where
  "float_gt (Fin q) c = (c < q)"
| "float_gt PInf c = True"
| "float_gt NInf c = False"
| "float_gt NaN c = False"

fun float_le :: "pyfloat \<Rightarrow> rat \<Rightarrow> bool" where
  "float_le (Fin q) c = (q \<le> c)"
| "float_le PInf c = False"
| "float_le NInf c = True"
| "float_le NaN c = False"

fun float_nonzero :: "pyfloat \<Rightarrow> bool" where
  "float_nonzero (Fin q) = (q \<noteq> 0)"
| "float_nonzero PInf = True"
| "float_nonzero NInf = True"
| "float_nonzero NaN = True"

text \<open>Rounding towards zero, as \<^verbatim>\<open>int(x)\<close> does on a finite float.\<close>

definition trunc :: "rat \<Rightarrow> int" where
  "trunc q = (if 0 \<le> q then \<lfloor>q\<rfloor> else \<lceil>q\<rceil>)"

text \<open>\<^verbatim>\<open>int(x)\<close> for a float \<^verbatim>\<open>x\<close>: OverflowError on an infinity, ValueError on NaN.\<close>

fun int_of_float :: "pyfloat \<Rightarrow> error + int" where
  "int_of_float (Fin q) = Inr (trunc q)"
| "int_of_float PInf = Inl OverflowError"
| "int_of_float NInf = Inl OverflowError"
| "int_of_float NaN = Inl ValueError"

subsection \<open>Strings\<close>

text \<open>\<^verbatim>\<open>str.lower()\<close> on the code points 0..255: A-Z and the Latin-1 capitals
  (0xC0..0xDE without the multiplication sign 0xD7) move up by 32.\<close>

definition lower_char :: "char \<Rightarrow> char" where
  "lower_char c =
     (let n = (of_char c :: nat) in
      if (65 \<le> n \<and> n \<le> 90) \<or> (192 \<le> n \<and> n \<le> 222 \<and> n \<noteq> 215)
      then char_of (n + 32) else c)"

definition lower :: "string \<Rightarrow> string" where
  "lower s = map lower_char s"

text \<open>\<^verbatim>\<open>sub in s\<close> for two strings.\<close>

fun contains :: "string \<Rightarrow> string \<Rightarrow> bool" where
  "contains sub [] = (sub = [])"
| "contains sub (c # cs) = (take (length sub) (c # cs) = sub \<or> contains sub cs)"

text \<open>The characters \<^verbatim>\<open>str.strip()\<close> removes, among the code points 0..255.\<close>

definition is_space :: "char \<Rightarrow> bool" where
  "is_space c =
     (let n = (of_char c :: nat) in
      (9 \<le> n \<and> n \<le> 13) \<or> (28 \<le> n \<and> n \<le> 32) \<or> n = 133 \<or> n = 160)"

definition strip :: "string \<Rightarrow> string" where
  "strip s = rev (dropWhile is_space (rev (dropWhile is_space s)))"

text \<open>\<^verbatim>\<open>value.replace(',', '')\<close>.\<close>

definition remove_commas :: "string \<Rightarrow> string" where
  "remove_commas s = filter (\<lambda>c. c \<noteq> CHR '','') s"

text \<open>\<^verbatim>\<open>str(i)\<close> for an int.\<close>

definition digit_char :: "nat \<Rightarrow> char" where
  "digit_char d = char_of (48 + d)"

fun str_nat :: "nat \<Rightarrow> string" where
  "str_nat n = (if n < 10 then [digit_char n] else str_nat (n div 10) @ [digit_char (n mod 10)])"

declare str_nat.simps [simp del]

definition str_int :: "int \<Rightarrow> string" where
  "str_int i = (if i < 0 then CHR ''-'' # str_nat (nat (- i)) else str_nat (nat i))"

subsection \<open>Truthiness, \<^verbatim>\<open>isinstance\<close>, containers\<close>

fun truthy :: "json \<Rightarrow> bool" where
  "truthy JNull = False"
| "truthy (JBool b) = b"
| "truthy (JInt i) = (i \<noteq> 0)"
| "truthy (JFloat f) = float_nonzero f"
| "truthy (JStr s) = (s \<noteq> [])"
| "truthy (JList xs) = (xs \<noteq> [])"
| "truthy (JDict kv) = (kv \<noteq> [])"

text \<open>\<^verbatim>\<open>isinstance(v, int)\<close> holds for ints and for bools (\<^verbatim>\<open>bool\<close> is a subclass of
  \<^verbatim>\<open>int\<close>, with \<^verbatim>\<open>True == 1\<close> and \<^verbatim>\<open>False == 0\<close>); \<open>as_int\<close> gives the integer.\<close>

fun as_int :: "json \<Rightarrow> int option" where
  "as_int (JInt i) = Some i"
| "as_int (JBool b) = Some (if b then 1 else 0)"
| "as_int _ = None"

text \<open>\<^verbatim>\<open>isinstance(v, (int, float)) and v > c\<close>.\<close>

fun number_gt :: "json \<Rightarrow> int \<Rightarrow> bool" where
  "number_gt (JInt i) c = (c < i)"
| "number_gt (JBool b) c = (c < (if b then 1 else 0))"
| "number_gt (JFloat f) c = float_gt f (of_int c)"
| "number_gt _ c = False"

text \<open>\<^verbatim>\<open>v > c\<close> for an int \<^verbatim>\<open>c\<close>: TypeError unless \<^verbatim>\<open>v\<close> is a number.\<close>

fun py_gt :: "json \<Rightarrow> int \<Rightarrow> error + bool" where
  "py_gt (JInt i) c = Inr (c < i)"
| "py_gt (JBool b) c = Inr (c < (if b then 1 else 0))"
| "py_gt (JFloat f) c = Inr (float_gt f (of_int c))"
| "py_gt _ c = Inl TypeError"

definition dict_keys :: "(string \<times> json) list \<Rightarrow> string list" where
  "dict_keys kv = remdups (map fst kv)"

text \<open>\<^verbatim>\<open>len(x)\<close>.\<close>

fun py_len :: "json \<Rightarrow> error + nat" where
  "py_len (JList xs) = Inr (length xs)"
| "py_len (JStr s) = Inr (length s)"
| "py_len (JDict kv) = Inr (length (dict_keys kv))"
| "py_len _ = Inl TypeError"

text \<open>\<^verbatim>\<open>xs[i]\<close> on a sequence: position \<open>i\<close> from the front when \<open>i\<close> is not negative,
  position \<open>-i\<close> from the back otherwise; IndexError outside the sequence.\<close>

definition seq_get :: "'a list \<Rightarrow> int \<Rightarrow> error + 'a" where
  "seq_get xs i =
     (if 0 \<le> i then
        (if nat i < length xs then Inr (xs ! nat i) else Inl IndexError)
      else
        (if nat (- i) \<le> length xs then Inr (xs ! (length xs - nat (- i)))
         else Inl IndexError))"

text \<open>\<^verbatim>\<open>x[i]\<close> for an int \<^verbatim>\<open>i\<close>. The keys of a decoded JSON object are strings, so an int
  is never among them.\<close>

fun py_getitem_int :: "json \<Rightarrow> int \<Rightarrow> error + json" where
  "py_getitem_int (JList xs) i = seq_get xs i"
| "py_getitem_int (JStr s) i = bindE (seq_get s i) (\<lambda>c. Inr (JStr [c]))"
| "py_getitem_int (JDict kv) i = Inl KeyError"
| "py_getitem_int _ i = Inl TypeError"

text \<open>\<^verbatim>\<open>x[k]\<close> for a string \<^verbatim>\<open>k\<close>.\<close>

fun py_getitem_str :: "json \<Rightarrow> string \<Rightarrow> error + json" where
  "py_getitem_str (JDict kv) k = (case map_of kv k of None \<Rightarrow> Inl KeyError | Some v \<Rightarrow> Inr v)"
| "py_getitem_str _ k = Inl TypeError"

text \<open>\<^verbatim>\<open>k in x\<close> for a string \<^verbatim>\<open>k\<close>: a key of a dict, an element of a list, a substring
  of a string.\<close>

fun py_contains :: "json \<Rightarrow> string \<Rightarrow> error + bool" where
  "py_contains (JDict kv) k = Inr (map_of kv k \<noteq> None)"
| "py_contains (JList xs) k = Inr (List.member xs (JStr k))"
| "py_contains (JStr s) k = Inr (contains k s)"
| "py_contains _ k = Inl TypeError"

text \<open>\<^verbatim>\<open>x.get(k, default)\<close>: only a dict has the method.\<close>

fun py_get :: "json \<Rightarrow> string \<Rightarrow> json \<Rightarrow> error + json" where
  "py_get (JDict kv) k d = Inr (case map_of kv k of None \<Rightarrow> d | Some v \<Rightarrow> v)"
| "py_get _ k d = Inl AttributeError"

text \<open>The elements a \<^verbatim>\<open>for\<close> loop over \<^verbatim>\<open>x\<close> visits.\<close>

fun py_iter :: "json \<Rightarrow> error + json list" where
  "py_iter (JList xs) = Inr xs"
| "py_iter (JStr s) = Inr (map (\<lambda>c. JStr [c]) s)"
| "py_iter (JDict kv) = Inr (map JStr (dict_keys kv))"
| "py_iter _ = Inl TypeError"

section \<open>The Python library the scraper calls\<close>

text \<open>
  The conversions below belong to the Python runtime, not to the repository, and depend on
  IEEE rounding and on the local time zone. They are parameters of the model:
  \<^item> \<open>float_of_str s\<close> is \<^verbatim>\<open>float(s)\<close> for a string; \<open>None\<close> is ValueError;
  \<^item> \<open>float_of_int i\<close> is \<^verbatim>\<open>float(i)\<close> for an int; \<open>None\<close> is OverflowError;
  \<^item> \<open>div_1000 x\<close> is \<^verbatim>\<open>x / 1000\<close> for a float;
  \<^item> \<open>fromtimestamp x\<close> is \<^verbatim>\<open>datetime.fromtimestamp(x).strftime('%Y-%m-%d')\<close>; \<open>None\<close> is one
    of ValueError, OSError, OverflowError, the exceptions \<^verbatim>\<open>fromtimestamp\<close> raises.
\<close>

record pylib =
  float_of_str :: "string \<Rightarrow> pyfloat option"
  float_of_int :: "int \<Rightarrow> pyfloat option"
  div_1000 :: "pyfloat \<Rightarrow> pyfloat"
  fromtimestamp :: "pyfloat \<Rightarrow> string option"

section \<open>Timestamps to dates\<close>

text \<open>
  \<^verbatim>\<open>convert_timestamp_to_date\<close>. The inner \<^verbatim>\<open>try\<close> catches the ValueError of
  \<^verbatim>\<open>float(timestamp_input)\<close> on a string; the outer one catches ValueError, OSError and
  OverflowError, which covers \<^verbatim>\<open>float\<close> of a huge int and \<^verbatim>\<open>datetime.fromtimestamp\<close>.
  \<^verbatim>\<open>float\<close> of a list or a dict raises TypeError, which nothing catches.
\<close>

definition date_of_number :: "pylib \<Rightarrow> pyfloat \<Rightarrow> string" where
  "date_of_number lib timestamp_num =
     (if float_le timestamp_num 0 then ''''
      else let timestamp_sec =
                 (if float_gt timestamp_num 10000000000 then div_1000 lib timestamp_num
                  else timestamp_num)
           in case fromtimestamp lib timestamp_sec of None \<Rightarrow> '''' | Some d \<Rightarrow> d)"

definition convert_timestamp_to_date :: "pylib \<Rightarrow> json \<Rightarrow> error + string" where
  "convert_timestamp_to_date lib timestamp_input =
     (if \<not> truthy timestamp_input then Inr ''''
      else case timestamp_input of
          JStr s \<Rightarrow>
            (case float_of_str lib s of
               None \<Rightarrow> if 10 \<le> length s \<and> CHR ''-'' \<in> set s then Inr (take 10 s) else Inr ''''
             | Some timestamp_num \<Rightarrow> Inr (date_of_number lib timestamp_num))
        | JInt i \<Rightarrow>
            (case float_of_int lib i of
               None \<Rightarrow> Inr ''''
             | Some timestamp_num \<Rightarrow> Inr (date_of_number lib timestamp_num))
        | JBool b \<Rightarrow>
            (case float_of_int lib (if b then 1 else 0) of
               None \<Rightarrow> Inr ''''
             | Some timestamp_num \<Rightarrow> Inr (date_of_number lib timestamp_num))
        | JFloat timestamp_num \<Rightarrow> Inr (date_of_number lib timestamp_num)
        | _ \<Rightarrow> Inl TypeError)"

section \<open>Row Extractor\<close>

text \<open>The inner loop over one row group: \<^verbatim>\<open>for row in ph['DM0']: if 'C' in row:
  data_rows.append(row['C'])\<close>.\<close>

fun collect_C :: "json list \<Rightarrow> error + json list" where
  "collect_C [] = Inr []"
| "collect_C (row # rows) =
     bindE (py_contains row ''C'') (\<lambda>has.
       if has then
         bindE (py_getitem_str row ''C'') (\<lambda>c.
         bindE (collect_C rows) (\<lambda>cs. Inr (c # cs)))
       else collect_C rows)"

text \<open>\<^verbatim>\<open>if key in ph: for row in ph[key]: ...\<close>.\<close>

definition collect_group :: "json \<Rightarrow> string \<Rightarrow> error + json list" where
  "collect_group ph key =
     bindE (py_contains ph key) (\<lambda>has.
       if has then
         bindE (py_getitem_str ph key) (\<lambda>g.
         bindE (py_iter g) collect_C)
       else Inr [])"

text \<open>The loop over the page blocks: the summary group DM0 of a block, then its detail
  group DM1.\<close>

fun collect_ph :: "json list \<Rightarrow> error + json list" where
  "collect_ph [] = Inr []"
| "collect_ph (ph # phs) =
     bindE (collect_group ph ''DM0'') (\<lambda>a.
     bindE (collect_group ph ''DM1'') (\<lambda>b.
     bindE (collect_ph phs) (\<lambda>r. Inr (a @ b @ r))))"

text \<open>\<^verbatim>\<open>isinstance(v, (int, float)) and v > 1000000000000\<close>.\<close>

definition is_epoch_ms :: "json \<Rightarrow> bool" where
  "is_epoch_ms v = number_gt v 1000000000000"

text \<open>One condition of the \<^verbatim>\<open>if\<close>/\<^verbatim>\<open>elif\<close> of the date scan: the length test, and only
  when it holds the read of \<^verbatim>\<open>row_data[0]\<close>.\<close>

definition date_guard :: "json \<Rightarrow> bool \<Rightarrow> error + bool" where
  "date_guard row_data len_ok =
     (if len_ok then bindE (py_getitem_int row_data 0) (\<lambda>v. Inr (is_epoch_ms v)) else Inr False)"

definition new_date :: "pylib \<Rightarrow> json \<Rightarrow> error + string" where
  "new_date lib row_data = bindE (py_getitem_int row_data 0) (convert_timestamp_to_date lib)"

definition step_date :: "pylib \<Rightarrow> string \<Rightarrow> json \<Rightarrow> error + string" where
  "step_date lib current_date row_data =
     bindE (py_len row_data) (\<lambda>n.
     bindE (date_guard row_data (n = 1)) (\<lambda>c1.
       if c1 then new_date lib row_data
       else
         bindE (date_guard row_data (4 \<le> n)) (\<lambda>c2.
           if c2 then new_date lib row_data else Inr current_date)))"

text \<open>The date scan: \<^verbatim>\<open>current_date\<close> is threaded through the rows and appended once per
  row.\<close>

fun assign_dates :: "pylib \<Rightarrow> string \<Rightarrow> json list \<Rightarrow> error + string list" where
  "assign_dates lib current_date [] = Inr []"
| "assign_dates lib current_date (row_data # rows) =
     bindE (step_date lib current_date row_data) (\<lambda>d.
     bindE (assign_dates lib d rows) (\<lambda>ds. Inr (d # ds)))"

text \<open>\<^verbatim>\<open>extract_data_from_json\<close>: both \<^verbatim>\<open>raise ValueError\<close> statements are the
  \<open>Inl ValueError\<close> below.\<close>

definition extract_data_from_json ::
  "pylib \<Rightarrow> json \<Rightarrow> error + (json list \<times> json \<times> json \<times> string list)" where
  "extract_data_from_json lib json_data =
     bindE (py_get json_data ''results'' (JList [])) (\<lambda>results.
     if \<not> truthy results then Inl ValueError
     else
     bindE (py_getitem_int results 0) (\<lambda>r0.
     bindE (py_get r0 ''result'' (JDict [])) (\<lambda>res.
     bindE (py_get res ''data'' (JDict [])) (\<lambda>result_data.
     bindE (py_get result_data ''timestamp'' (JStr '''')) (\<lambda>timestamp.
     bindE (py_get result_data ''dsr'' (JDict [])) (\<lambda>dsr.
     bindE (py_get dsr ''DS'' (JList [])) (\<lambda>ds_list.
     if \<not> truthy ds_list then Inl ValueError
     else
     bindE (py_getitem_int ds_list 0) (\<lambda>ds0.
     bindE (py_get ds0 ''ValueDicts'' (JDict [])) (\<lambda>value_dicts.
     bindE (py_get ds0 ''PH'' (JList [])) (\<lambda>ph_list.
     bindE (py_iter ph_list) (\<lambda>phs.
     bindE (collect_ph phs) (\<lambda>data_rows.
     bindE (assign_dates lib '''' data_rows) (\<lambda>row_date_assignments.
     Inr (data_rows, value_dicts, timestamp, row_date_assignments))))))))))))))"

section \<open>Row Decoder\<close>

text \<open>The output record. The text fields hold strings; the numeric fields hold a number or
  the empty string \<open>JStr ''''\<close>; \<open>scrape_datetime\<close> is the payload's timestamp value.\<close>

record csv_row =
  scrape_datetime :: json
  date :: string
  installation :: string
  oil_production :: json
  gas_production :: json
  oil_equivalents_boe :: json
  operator :: string
  type :: string
  estado :: string
  city :: string
  atendimento_campo :: string
  campo :: string
  quantity :: json
  code :: string
  status :: string

definition init_row :: "json \<Rightarrow> string \<Rightarrow> csv_row" where
  "init_row timestamp row_date =
     \<lparr> scrape_datetime = timestamp, date = row_date, installation = '''',
       oil_production = JStr '''', gas_production = JStr '''', oil_equivalents_boe = JStr '''',
       operator = '''', type = '''', estado = '''', city = '''', atendimento_campo = '''',
       campo = '''', quantity = JStr '''', code = '''', status = '''' \<rparr>"

text \<open>\<^verbatim>\<open>get_value(index)\<close>: the element, or \<^verbatim>\<open>None\<close> past the end of the row.\<close>

definition get_value :: "json list \<Rightarrow> nat \<Rightarrow> json" where
  "get_value data_row index = (if index < length data_row then data_row ! index else JNull)"

text \<open>The last line of \<^verbatim>\<open>lookup_text_direct\<close>:
  \<^verbatim>\<open>text_value if text_value and text_value.strip() else ''\<close>. Only a string has
  \<^verbatim>\<open>strip\<close>.\<close>

fun nonblank_text :: "json \<Rightarrow> error + string" where
  "nonblank_text (JStr s) = Inr (if s \<noteq> [] \<and> strip s \<noteq> [] then s else '''')"
| "nonblank_text v = (if truthy v then Inl AttributeError else Inr '''')"

text \<open>\<^verbatim>\<open>lookup_text_direct(index, dict_key)\<close>. The conditions are evaluated left to right and
  stop at the first false one.\<close>

definition lookup_text_direct :: "json \<Rightarrow> json \<Rightarrow> string \<Rightarrow> error + string" where
  "lookup_text_direct value_dicts index dict_key =
     (if index = JNull then Inr ''''
      else
        bindE (py_contains value_dicts dict_key) (\<lambda>known.
          if \<not> known then Inr ''''
          else case as_int index of
              None \<Rightarrow> Inr ''''
            | Some i \<Rightarrow>
                if \<not> 0 \<le> i then Inr ''''
                else
                  bindE (py_getitem_str value_dicts dict_key) (\<lambda>d.
                  bindE (py_len d) (\<lambda>n.
                    if \<not> i < int n then Inr ''''
                    else bindE (py_getitem_int d i) nonblank_text))))"

text \<open>\<^verbatim>\<open>get_numeric(value)\<close>. The \<^verbatim>\<open>except (ValueError, TypeError)\<close> clause turns the
  ValueError of \<^verbatim>\<open>float\<close> and of \<^verbatim>\<open>int\<close> on NaN into the empty string; the OverflowError of
  \<^verbatim>\<open>int\<close> on an infinity is not among the exceptions it names.\<close>

text \<open>\<^verbatim>\<open>num != 0\<close>; \<^verbatim>\<open>True\<close> equals 1 and \<^verbatim>\<open>False\<close> equals 0.\<close>

fun ne_zero :: "json \<Rightarrow> bool" where
  "ne_zero (JInt i) = (i \<noteq> 0)"
| "ne_zero (JBool b) = b"
| "ne_zero (JFloat f) = float_nonzero f"
| "ne_zero _ = True"

text \<open>\<^verbatim>\<open>return num if num != 0 else ''\<close>.\<close>

definition nonzero_or_empty :: "json \<Rightarrow> json" where
  "nonzero_or_empty num = (if ne_zero num then num else JStr '''')"

definition get_numeric :: "pylib \<Rightarrow> json \<Rightarrow> error + json" where
  "get_numeric lib v =
     (case v of
        JNull \<Rightarrow> Inr (JStr '''')
      | JStr s \<Rightarrow>
          (let clean_value = remove_commas s in
           if CHR ''.'' \<in> set clean_value \<or> CHR ''e'' \<in> set (lower clean_value)
           then (case float_of_str lib clean_value of
                   None \<Rightarrow> Inr (JStr '''')
                 | Some f \<Rightarrow> Inr (nonzero_or_empty (JFloat f)))
           else (case float_of_str lib clean_value of
                   None \<Rightarrow> Inr (JStr '''')
                 | Some f \<Rightarrow>
                     (case int_of_float f of
                        Inr i \<Rightarrow> Inr (nonzero_or_empty (JInt i))
                      | Inl e \<Rightarrow>
                          if e = ValueError \<or> e = TypeError then Inr (JStr '''') else Inl e)))
      | JInt i \<Rightarrow> Inr (nonzero_or_empty v)
      | JBool b \<Rightarrow> Inr (nonzero_or_empty v)
      | JFloat f \<Rightarrow> Inr (nonzero_or_empty v)
      | _ \<Rightarrow> Inr (JStr ''''))"

text \<open>The test of the summary branch, for one element:
  \<^verbatim>\<open>isinstance(val, (int, float, str)) and not isinstance(val, int) or val > 100\<close>.
  A float or a string passes on the left of \<^verbatim>\<open>or\<close>; anything else is compared with 100.\<close>

fun summary_elem :: "json \<Rightarrow> error + bool" where
  "summary_elem (JFloat f) = Inr True"
| "summary_elem (JStr s) = Inr True"
| "summary_elem val = py_gt val 100"

text \<open>\<^verbatim>\<open>all(... for val in data_row)\<close> stops at the first false element.\<close>

fun summary_all :: "json list \<Rightarrow> error + bool" where
  "summary_all [] = Inr True"
| "summary_all (val # vals) =
     bindE (summary_elem val) (\<lambda>ok. if ok then summary_all vals else Inr False)"

subsection \<open>Detail rows\<close>

text \<open>One step of the scan for production values:
  \<^verbatim>\<open>float(str(val).replace(',', ''))\<close> for an int, float or string, \<open>None\<close> when the value is
  of another type or the conversion raises (the bare \<^verbatim>\<open>except\<close> skips the value).
  \<^verbatim>\<open>str\<close> of a float is its \<^verbatim>\<open>repr\<close>, which \<^verbatim>\<open>float\<close> reads back to the same float.\<close>

fun production_value :: "pylib \<Rightarrow> json \<Rightarrow> pyfloat option" where
  "production_value lib (JInt i) = float_of_str lib (remove_commas (str_int i))"
| "production_value lib (JBool b) =
     float_of_str lib (remove_commas (if b then ''True'' else ''False''))"
| "production_value lib (JFloat f) = Some f"
| "production_value lib (JStr s) = float_of_str lib (remove_commas s)"
| "production_value lib _ = None"

text \<open>\<^verbatim>\<open>for i in range(6, row_length)\<close>: the non-zero values, in row order.\<close>

definition production_values :: "pylib \<Rightarrow> json list \<Rightarrow> pyfloat list" where
  "production_values lib data_row =
     filter float_nonzero
       (List.map_filter (\<lambda>i. production_value lib (get_value data_row i)) [6..<length data_row])"

text \<open>\<^verbatim>\<open>1 <= val <= 1000 and val == int(val)\<close>, with \<^verbatim>\<open>int(val)\<close> when it holds.\<close>

fun quantity_int :: "pyfloat \<Rightarrow> int option" where
  "quantity_int (Fin q) = (if 1 \<le> q \<and> q \<le> 1000 \<and> q = of_int (trunc q) then Some (trunc q) else None)"
| "quantity_int _ = None"

text \<open>The search loop: the index of the first quantity candidate and its integer.\<close>

fun find_quantity :: "pyfloat list \<Rightarrow> (nat \<times> int) option" where
  "find_quantity [] = None"
| "find_quantity (val # vals) =
     (case quantity_int val of
        Some n \<Rightarrow> Some (0, n)
      | None \<Rightarrow> map_option (\<lambda>(k, n). (Suc k, n)) (find_quantity vals))"

text \<open>The test on the resolved type text: \<^verbatim>\<open>x in t.lower() or 'gas' in t.lower()\<close>, where
  \<^verbatim>\<open>x\<close> is the three characters g, a with acute accent (code point 225), s.\<close>

definition gas_acute :: string where
  "gas_acute = [CHR ''g'', char_of (225 :: nat), CHR ''s'']"

definition is_gas_type :: "string \<Rightarrow> bool" where
  "is_gas_type t = (contains gas_acute (lower t) \<or> contains ''gas'' (lower t))"

text \<open>The assignment of the production values (the block under
  \<^verbatim>\<open>if len(production_values) >= 3\<close>); \<open>values\<close> is the list \<^verbatim>\<open>production_values\<close>.\<close>

definition assign_production :: "csv_row \<Rightarrow> pyfloat list \<Rightarrow> csv_row" where
  "assign_production csv values =
     (if 3 \<le> length values then
        (case find_quantity values of
           Some (quantity_idx, n) \<Rightarrow>
             (let r1 = csv\<lparr>quantity := JInt n\<rparr>;
                  before_qty = take quantity_idx values;
                  after_qty = drop (quantity_idx + 1) values;
                  r2 = (if 2 \<le> length before_qty then
                          r1\<lparr>oil_production := JFloat (before_qty ! 0),
                             gas_production := JFloat (before_qty ! 1)\<rparr>
                        else if length before_qty = 1 then
                          (if is_gas_type (type r1)
                           then r1\<lparr>gas_production := JFloat (before_qty ! 0)\<rparr>
                           else r1\<lparr>oil_production := JFloat (before_qty ! 0)\<rparr>)
                        else r1)
              in if 1 \<le> length after_qty
                 then r2\<lparr>oil_equivalents_boe := JFloat (after_qty ! 0)\<rparr>
                 else r2)
         | None \<Rightarrow>
             csv\<lparr>oil_production := JFloat (values ! 0),
                 gas_production := JFloat (values ! 1),
                 oil_equivalents_boe := JFloat (values ! 2)\<rparr>)
      else csv)"

text \<open>\<^verbatim>\<open>for i in range(7, min(row_length, 11))\<close>: index 7 is skipped, index 8 gives the
  code, index 9 the status.\<close>

fun code_status :: "json \<Rightarrow> json list \<Rightarrow> nat list \<Rightarrow> csv_row \<Rightarrow> error + csv_row" where
  "code_status value_dicts data_row [] csv = Inr csv"
| "code_status value_dicts data_row (i # rest) csv =
     (let val = get_value data_row i in
      case as_int val of
        None \<Rightarrow> code_status value_dicts data_row rest csv
      | Some n \<Rightarrow>
          if 0 \<le> n \<and> n < 1000 then
            (if i = 7 then code_status value_dicts data_row rest csv
             else if i = 8 then
               bindE (lookup_text_direct value_dicts val ''D8'') (\<lambda>t.
                 code_status value_dicts data_row rest (csv\<lparr>code := t\<rparr>))
             else if i = 9 then
               bindE (lookup_text_direct value_dicts val ''D9'') (\<lambda>t.
                 code_status value_dicts data_row rest (csv\<lparr>status := t\<rparr>))
             else code_status value_dicts data_row rest csv)
          else code_status value_dicts data_row rest csv)"

text \<open>The branch \<^verbatim>\<open>if row_length >= 9\<close>.\<close>

definition detail_row :: "pylib \<Rightarrow> json list \<Rightarrow> json \<Rightarrow> csv_row \<Rightarrow> error + csv_row option" where
  "detail_row lib data_row value_dicts csv =
     (let installation_idx = get_value data_row 0 in
      case as_int installation_idx of
        None \<Rightarrow> Inr None
      | Some idx \<Rightarrow>
          if idx < 0 then Inr None
          else
            bindE (lookup_text_direct value_dicts (get_value data_row 0) ''D0'') (\<lambda>t0.
            bindE (lookup_text_direct value_dicts (get_value data_row 1) ''D1'') (\<lambda>t1.
            bindE (lookup_text_direct value_dicts (get_value data_row 2) ''D2'') (\<lambda>t2.
            bindE (lookup_text_direct value_dicts (get_value data_row 3) ''D3'') (\<lambda>t3.
            bindE (lookup_text_direct value_dicts (get_value data_row 4) ''D4'') (\<lambda>t4.
            bindE (lookup_text_direct value_dicts (get_value data_row 5) ''D5'') (\<lambda>t5.
            bindE (lookup_text_direct value_dicts (get_value data_row 6) ''D6'') (\<lambda>t6.
              let r = csv\<lparr>installation := t0, operator := t1, type := t2, estado := t3,
                          city := t4, atendimento_campo := t5, campo := t6\<rparr>
              in if installation r = [] then Inr None
                 else
                   bindE (code_status value_dicts data_row [7..<min (length data_row) 11]
                            (assign_production r (production_values lib data_row))) (\<lambda>r'.
                     if installation r' \<noteq> [] \<and>
                        (truthy (oil_production r') \<or> truthy (gas_production r') \<or>
                         truthy (oil_equivalents_boe r'))
                     then Inr (Some r') else Inr None)))))))))"

subsection \<open>The decoder\<close>

text \<open>\<^verbatim>\<open>map_data_row_to_csv\<close>; \<open>Inr None\<close> is \<^verbatim>\<open>return None\<close> (discard).\<close>

definition map_data_row_to_csv ::
  "pylib \<Rightarrow> json list \<Rightarrow> json \<Rightarrow> json \<Rightarrow> string \<Rightarrow> error + csv_row option" where
  "map_data_row_to_csv lib data_row value_dicts timestamp row_date =
     (let csv = init_row timestamp row_date; row_length = length data_row in
      if row_length = 0 then Inr None
      else if row_length = 1 then Inr None
      else
        bindE (if row_length = 4 then summary_all data_row else Inr False) (\<lambda>summary.
          if summary then
            bindE (get_numeric lib (data_row ! 0)) (\<lambda>oil.
            bindE (get_numeric lib (data_row ! 1)) (\<lambda>gas.
            bindE (get_numeric lib (data_row ! 2)) (\<lambda>qty.
            bindE (get_numeric lib (data_row ! 3)) (\<lambda>boe.
              Inr (Some (csv\<lparr>oil_production := oil, gas_production := gas,
                              quantity := qty, oil_equivalents_boe := boe\<rparr>))))))
          else
            (let first_val = get_value data_row 0 in
             if is_epoch_ms first_val then
               (if row_length = 4 then
                  bindE (convert_timestamp_to_date lib first_val) (\<lambda>d.
                  bindE (get_numeric lib (data_row ! 1)) (\<lambda>oil.
                  bindE (get_numeric lib (data_row ! 2)) (\<lambda>gas.
                  bindE (get_numeric lib (data_row ! 3)) (\<lambda>boe.
                    Inr (Some (csv\<lparr>date := d, oil_production := oil, gas_production := gas,
                                    oil_equivalents_boe := boe\<rparr>))))))
                else Inr None)
             else if 9 \<le> row_length then detail_row lib data_row value_dicts csv
             else Inr None)))"

section \<open>The decode pass and the output file\<close>

text \<open>\<^verbatim>\<open>map_data_row_to_csv\<close> applied to an extracted row \<^verbatim>\<open>row['C']\<close>, which is whatever JSON
  value the payload holds there. A string behaves as the list of its one-character strings
  (\<^verbatim>\<open>len\<close>, indexing and iteration agree). On a dict, \<^verbatim>\<open>len\<close> counts the keys and
  \<^verbatim>\<open>data_row[0]\<close>, read as soon as the length is neither 0 nor 1, raises KeyError. Any other
  value has no \<^verbatim>\<open>len\<close>.\<close>

fun decode_row :: "pylib \<Rightarrow> json \<Rightarrow> json \<Rightarrow> json \<Rightarrow> string \<Rightarrow> error + csv_row option" where
  "decode_row lib (JList xs) value_dicts timestamp row_date =
     map_data_row_to_csv lib xs value_dicts timestamp row_date"
| "decode_row lib (JStr s) value_dicts timestamp row_date =
     map_data_row_to_csv lib (map (\<lambda>c. JStr [c]) s) value_dicts timestamp row_date"
| "decode_row lib (JDict kv) value_dicts timestamp row_date =
     (if length (dict_keys kv) \<le> 1 then Inr None else Inl KeyError)"
| "decode_row lib _ value_dicts timestamp row_date = Inl TypeError"

text \<open>The loop of \<^verbatim>\<open>process_json_to_csv\<close> (the definition in force, the second of the two in
  the module): every value the decoder returns is appended, \<^verbatim>\<open>None\<close> included; a row whose
  decoding raises is skipped by \<^verbatim>\<open>except Exception: continue\<close>.\<close>

fun decode_rows ::
  "pylib \<Rightarrow> json list \<Rightarrow> json \<Rightarrow> json \<Rightarrow> string list \<Rightarrow> nat \<Rightarrow> csv_row option list" where
  "decode_rows lib [] value_dicts timestamp row_date_assignments i = []"
| "decode_rows lib (data_row # rows) value_dicts timestamp row_date_assignments i =
     (case bindE (seq_get row_date_assignments (int i))
                 (decode_row lib data_row value_dicts timestamp) of
        Inl e \<Rightarrow> decode_rows lib rows value_dicts timestamp row_date_assignments (Suc i)
      | Inr csv \<Rightarrow>
          csv # decode_rows lib rows value_dicts timestamp row_date_assignments (Suc i))"

text \<open>\<^verbatim>\<open>write_csv_file\<close>: the header, then one line per record; \<^verbatim>\<open>row.get\<close> on \<^verbatim>\<open>None\<close>
  raises AttributeError after the lines before it were written. The result is the records
  whose lines were written and the exception, if any. How a cell is printed is left out.\<close>

fun write_csv_file :: "csv_row option list \<Rightarrow> csv_row list \<times> error option" where
  "write_csv_file [] = ([], None)"
| "write_csv_file (None # rows) = ([], Some AttributeError)"
| "write_csv_file (Some r # rows) = (case write_csv_file rows of (w, e) \<Rightarrow> (r # w, e))"

text \<open>\<^verbatim>\<open>process_json_to_csv(json_data, output_file)\<close>: the exception it re-raises, if any, and
  the output file: \<open>None\<close> when it was never opened, otherwise the records written under the
  header.\<close>

definition process_json_to_csv :: "pylib \<Rightarrow> json \<Rightarrow> error option \<times> csv_row list option" where
  "process_json_to_csv lib json_data =
     (case extract_data_from_json lib json_data of
        Inl e \<Rightarrow> (Some e, None)
      | Inr (data_rows, value_dicts, timestamp, row_date_assignments) \<Rightarrow>
          (case write_csv_file
                  (decode_rows lib data_rows value_dicts timestamp row_date_assignments 0) of
             (w, e) \<Rightarrow> (e, Some w)))"

section \<open>An instance of the library\<close>

text \<open>
  An executable instance of the library parameters, used to run the model on concrete
  inputs: decimal literals and ints are read exactly (no rounding, no overflow), and the
  time zone is UTC. On the inputs evaluated below (integers below \<open>2^53\<close>, short decimal
  literals, \<^verbatim>\<open>inf\<close>) it returns what CPython returns with \<^verbatim>\<open>TZ=UTC\<close>.
\<close>

definition is_digit :: "char \<Rightarrow> bool" where
  "is_digit c = (48 \<le> (of_char c :: nat) \<and> (of_char c :: nat) \<le> 57)"

definition digit_val :: "char \<Rightarrow> int" where
  "digit_val c = of_char c - 48"

text \<open>A digit part: digits, with single underscores between digits. Returns the number
  read, how many digits it had, and the rest of the input.\<close>

fun digitpart :: "int \<Rightarrow> nat \<Rightarrow> string \<Rightarrow> int \<times> nat \<times> string" where
  "digitpart acc cnt [] = (acc, cnt, [])"
| "digitpart acc cnt (c # cs) =
     (if is_digit c then digitpart (acc * 10 + digit_val c) (Suc cnt) cs
      else if c = CHR ''_'' \<and> 0 < cnt \<and> (case cs of [] \<Rightarrow> False | d # _ \<Rightarrow> is_digit d)
      then digitpart acc cnt cs
      else (acc, cnt, c # cs))"

text \<open>An optional sign: the factor and the rest.\<close>

fun sign_of :: "string \<Rightarrow> int \<times> string" where
  "sign_of [] = (1, [])"
| "sign_of (c # cs) =
     (if c = CHR ''-'' then (- 1, cs) else if c = CHR ''+'' then (1, cs) else (1, c # cs))"

text \<open>The exponent part, empty or \<^verbatim>\<open>e\<close>, a sign and digits up to the end of the input.\<close>

definition exponent_of :: "string \<Rightarrow> int option" where
  "exponent_of s =
     (case s of
        [] \<Rightarrow> Some 0
      | c # cs \<Rightarrow>
          if c = CHR ''e'' \<or> c = CHR ''E'' then
            (case sign_of cs of
               (sg, r) \<Rightarrow>
                 (case digitpart 0 0 r of
                    (n, cnt, rest) \<Rightarrow> if 0 < cnt \<and> rest = [] then Some (sg * n) else None))
          else None)"

definition pow10 :: "int \<Rightarrow> rat" where
  "pow10 e = (if 0 \<le> e then 10 ^ nat e else 1 / 10 ^ nat (- e))"

text \<open>An unsigned decimal literal.\<close>

definition decimal_of :: "string \<Rightarrow> rat option" where
  "decimal_of s =
     (case digitpart 0 0 s of
        (ip, ic, r1) \<Rightarrow>
          (case (case r1 of
                   [] \<Rightarrow> (0, 0, r1)
                 | c # cs \<Rightarrow> if c = CHR ''.'' then digitpart 0 0 cs else (0, 0, r1)) of
             (fp, fc, r2) \<Rightarrow>
               if ic = 0 \<and> fc = 0 then None
               else (case exponent_of r2 of
                       None \<Rightarrow> None
                     | Some e \<Rightarrow> Some ((of_int ip + of_int fp / 10 ^ fc) * pow10 e))))"

text \<open>\<^verbatim>\<open>float\<close> drops the white space around the literal; unlike \<^verbatim>\<open>str.strip\<close> it keeps
  the separators 28..31.\<close>

definition is_float_space :: "char \<Rightarrow> bool" where
  "is_float_space c =
     (let n = (of_char c :: nat) in (9 \<le> n \<and> n \<le> 13) \<or> n = 32 \<or> n = 133 \<or> n = 160)"

definition float_strip :: "string \<Rightarrow> string" where
  "float_strip s = rev (dropWhile is_float_space (rev (dropWhile is_float_space s)))"

definition exact_float_of_str :: "string \<Rightarrow> pyfloat option" where
  "exact_float_of_str s =
     (case sign_of (float_strip s) of
        (sg, body) \<Rightarrow>
          if lower body = ''inf'' \<or> lower body = ''infinity''
          then Some (if sg < 0 then NInf else PInf)
          else if lower body = ''nan'' then Some NaN
          else map_option (\<lambda>q. Fin (of_int sg * q)) (decimal_of body))"

definition exact_float_of_int :: "int \<Rightarrow> pyfloat option" where
  "exact_float_of_int i = Some (Fin (of_int i))"

fun exact_div_1000 :: "pyfloat \<Rightarrow> pyfloat" where
  "exact_div_1000 (Fin q) = Fin (q / 1000)"
| "exact_div_1000 f = f"

text \<open>The calendar date of a day number counted from 1970-01-01 (proleptic Gregorian).\<close>

definition civil_from_days :: "int \<Rightarrow> int \<times> int \<times> int" where
  "civil_from_days days =
     (let z = days + 719468;
          era = z div 146097;
          doe = z mod 146097;
          yoe = (doe - doe div 1460 + doe div 36524 - doe div 146096) div 365;
          doy = doe - (365 * yoe + yoe div 4 - yoe div 100);
          mp = (5 * doy + 2) div 153;
          d = doy - (153 * mp + 2) div 5 + 1;
          m = (if mp < 10 then mp + 3 else mp - 9);
          y = yoe + era * 400 + (if m \<le> 2 then 1 else 0)
      in (y, m, d))"

definition zero_pad :: "nat \<Rightarrow> int \<Rightarrow> string" where
  "zero_pad w n = (let t = str_nat (nat n) in replicate (w - length t) CHR ''0'' @ t)"

fun utc_fromtimestamp :: "pyfloat \<Rightarrow> string option" where
  "utc_fromtimestamp (Fin q) =
     (case civil_from_days (\<lfloor>q\<rfloor> div 86400) of
        (y, m, d) \<Rightarrow>
          if 1 \<le> y \<and> y \<le> 9999
          then Some (zero_pad 4 y @ ''-'' @ zero_pad 2 m @ ''-'' @ zero_pad 2 d)
          else None)"
| "utc_fromtimestamp _ = None"

definition exact_utc :: pylib where
  "exact_utc =
     \<lparr> float_of_str = exact_float_of_str, float_of_int = exact_float_of_int,
       div_1000 = exact_div_1000, fromtimestamp = utc_fromtimestamp \<rparr>"

section \<open>Notions used to state the properties\<close>

text \<open>The values for which \<^verbatim>\<open>isinstance(v, (int, float))\<close> holds.\<close>

fun is_number :: "json \<Rightarrow> bool" where
  "is_number (JInt i) = True"
| "is_number (JBool b) = True"
| "is_number (JFloat f) = True"
| "is_number _ = False"

text \<open>A value dictionary of the type the decoder is written for,
  \<^verbatim>\<open>Dict[str, List[str]]\<close>: a dict whose values are lists of strings.\<close>

fun is_text :: "json \<Rightarrow> bool" where
  "is_text (JStr s) = True"
| "is_text _ = False"

fun is_text_list :: "json \<Rightarrow> bool" where
  "is_text_list (JList xs) = list_all is_text xs"
| "is_text_list _ = False"

fun typed_dicts :: "json \<Rightarrow> bool" where
  "typed_dicts (JDict kv) = list_all (\<lambda>(k, d). is_text_list d) kv"
| "typed_dicts _ = False"

text \<open>The dictionary lookup rule in the words of the specification: the entry of the named
  dictionary at the index, when the dictionary is known, the index is an integer (a bool
  counts as 1 or 0, as it does for \<^verbatim>\<open>isinstance(index, int)\<close>) that is not negative and is
  below the dictionary's length, and the entry is not blank after trimming; the empty string
  in every other case.\<close>

definition entry_text :: "json \<Rightarrow> string" where
  "entry_text x = (case x of JStr s \<Rightarrow> if strip s \<noteq> [] then s else '''' | _ \<Rightarrow> '''')"

definition dictionary_entry :: "json \<Rightarrow> json \<Rightarrow> string \<Rightarrow> string" where
  "dictionary_entry value_dicts index name =
     (case value_dicts of
        JDict kv \<Rightarrow>
          (case map_of kv name of
             Some (JList xs) \<Rightarrow>
               (case as_int index of
                  Some i \<Rightarrow> if 0 \<le> i \<and> i < int (length xs) then entry_text (xs ! nat i) else ''''
                | None \<Rightarrow> '''')
           | _ \<Rightarrow> '''')
      | _ \<Rightarrow> '''')"

text \<open>A small value dictionary to evaluate on.\<close>

definition sample_dicts :: json where
  "sample_dicts =
     JDict [(''D0'', JList [JStr ''P-1'', JStr ''  '', JStr ''FPSO X'']),
            (''D2'', JList [JStr ''Gas'']),
            (''D9'', JList [])]"

text \<open>The number \<^verbatim>\<open>float(timestamp_input)\<close> gives for a string, an int, a bool or a float, as
  \<^verbatim>\<open>convert_timestamp_to_date\<close> computes it; \<open>None\<close> when \<^verbatim>\<open>float\<close> raises.\<close>

fun timestamp_num :: "pylib \<Rightarrow> json \<Rightarrow> pyfloat option" where
  "timestamp_num lib (JStr s) = float_of_str lib s"
| "timestamp_num lib (JInt i) = float_of_int lib i"
| "timestamp_num lib (JBool b) = float_of_int lib (if b then 1 else 0)"
| "timestamp_num lib (JFloat f) = Some f"
| "timestamp_num lib _ = None"

text \<open>The date of a number of seconds, empty when \<^verbatim>\<open>datetime.fromtimestamp\<close> raises.\<close>

definition date_or_empty :: "pylib \<Rightarrow> pyfloat \<Rightarrow> string" where
  "date_or_empty lib x = (case fromtimestamp lib x of None \<Rightarrow> '''' | Some d \<Rightarrow> d)"

text \<open>The field of a JSON object, when the value is an object and has the field.\<close>

fun dict_field :: "json \<Rightarrow> string \<Rightarrow> json option" where
  "dict_field (JDict kv) k = map_of kv k"
| "dict_field _ k = None"

text \<open>A payload whose results list is empty or missing.\<close>

fun no_results :: "json \<Rightarrow> bool" where
  "no_results (JDict kv) = (case map_of kv ''results'' of None \<Rightarrow> True | Some r \<Rightarrow> r = JList [])"
| "no_results _ = False"

text \<open>The data-shape list of the first result: \<^verbatim>\<open>results[0].result.data.dsr.DS\<close>.\<close>

definition first_data_shapes :: "json \<Rightarrow> json option" where
  "first_data_shapes json_data =
     (case dict_field json_data ''results'' of
        Some (JList (r0 # rest)) \<Rightarrow>
          Option.bind (dict_field r0 ''result'') (\<lambda>res.
          Option.bind (dict_field res ''data'') (\<lambda>result_data.
          Option.bind (dict_field result_data ''dsr'') (\<lambda>dsr. dict_field dsr ''DS'')))
      | _ \<Rightarrow> None)"

text \<open>A payload whose first result has an empty data-shape list.\<close>

definition no_data_shapes :: "json \<Rightarrow> bool" where
  "no_data_shapes json_data = (first_data_shapes json_data = Some (JList []))"

text \<open>Payloads to evaluate on: a response with the given data-shape list, and a response with
  one data-shape block that holds the value dictionaries and one page block with the summary
  group DM0 and the detail group DM1, each row wrapped as \<^verbatim>\<open>{'C': row}\<close>.\<close>

definition response_with :: "json \<Rightarrow> json" where
  "response_with ds_list =
     JDict [(''results'',
       JList [JDict [(''result'',
         JDict [(''data'',
           JDict [(''timestamp'', JStr ''2024-01-31T12:00:00''),
                  (''dsr'', JDict [(''DS'', ds_list)])])])]])]"

definition sample_payload :: "json \<Rightarrow> json list \<Rightarrow> json list \<Rightarrow> json" where
  "sample_payload value_dicts dm0 dm1 =
     response_with
       (JList [JDict [(''ValueDicts'', value_dicts),
                      (''PH'', JList [JDict [(''DM0'', JList (map (\<lambda>c. JDict [(''C'', c)]) dm0)),
                                             (''DM1'', JList (map (\<lambda>c. JDict [(''C'', c)]) dm1))]])]])"

text \<open>The element that sets the current date, for a row that has one: the first element of
  a list of length 1 or of length at least 4, when it is a number above \<open>10^12\<close>.\<close>

fun epoch_row :: "json \<Rightarrow> json option" where
  "epoch_row (JList xs) =
     (if (length xs = 1 \<or> 4 \<le> length xs) \<and> is_epoch_ms (xs ! 0) then Some (xs ! 0) else None)"
| "epoch_row _ = None"

text \<open>The date scan as the claim words it: the current date is set by every row whose first
  element is a number above \<open>10^12\<close>, whatever the row's length, and carried forward by the
  other rows.\<close>

fun dates_for_any_length :: "pylib \<Rightarrow> string \<Rightarrow> json list \<Rightarrow> string list" where
  "dates_for_any_length lib current_date [] = []"
| "dates_for_any_length lib current_date (row_data # rows) =
     (let d = (case row_data of
                 JList (v # vs) \<Rightarrow>
                   if is_epoch_ms v
                   then (case convert_timestamp_to_date lib v of Inr t \<Rightarrow> t | Inl e \<Rightarrow> current_date)
                   else current_date
               | _ \<Rightarrow> current_date)
      in d # dates_for_any_length lib d rows)"

text \<open>Rows to run the date scan on.\<close>

definition scan_rows :: "json list" where
  "scan_rows =
     [JList [JInt 1700000000000],
      JList [JInt 3, JInt 4],
      JList [JInt 1800000000000, JInt 5],
      JList [JInt 1800000000000, JFloat (Fin (3 / 2)), JFloat (Fin (5 / 2)), JFloat (Fin (7 / 2))]]"

text \<open>The elements the summary test of the decoder lets through among the numbers: a float,
  or an int above 100.\<close>

fun summary_number :: "json \<Rightarrow> bool" where
  "summary_number (JFloat f) = True"
| "summary_number (JInt i) = (100 < i)"
| "summary_number _ = False"

text \<open>Inputs to evaluate the decoder on: a value dictionary whose type text is G, a with
  acute accent, s; a detail row whose production values are 120.5, 30.2, 5 and 800.1; a
  summary row; a row of small ints; a row led by an epoch-millisecond value; and a row of
  strings the first of which reads as an infinity.\<close>

definition detail_dicts :: json where
  "detail_dicts =
     JDict [(''D0'', JList [JStr ''FPSO A'', JStr ''FPSO B'', JStr ''P-1'']),
            (''D1'', JList [JStr ''Operator X'']),
            (''D2'', JList [JStr [CHR ''G'', char_of (225 :: nat), CHR ''s'']]),
            (''D9'', JList [JStr ''s0'', JStr ''s1'', JStr ''s2'', JStr ''s3'', JStr ''s4'',
                            JStr ''s5''])]"

definition detail_example :: "json list" where
  "detail_example =
     [JInt 2, JInt 0, JInt 0, JInt 0, JInt 0, JInt 0, JInt 0,
      JFloat (Fin (241 / 2)), JFloat (Fin (151 / 5)), JInt 5, JFloat (Fin (8001 / 10))]"

definition summary_example :: "json list" where
  "summary_example = [JFloat (Fin (401 / 2)), JInt 300, JFloat (Fin 0), JInt 800]"

definition small_ints_example :: "json list" where
  "small_ints_example = [JInt 50, JInt 60, JInt 7, JInt 110]"

definition timestamped_example :: "json list" where
  "timestamped_example =
     [JInt 1700000000000, JFloat (Fin (241 / 2)), JFloat (Fin (121 / 4)), JFloat (Fin (6401 / 8))]"

definition infinity_example :: "json list" where
  "infinity_example = [JStr ''inf'', JStr ''a'', JStr ''b'', JStr ''c'']"

section \<open>Properties\<close>

subsection \<open>Basic facts\<close>

lemma bindE_Inl [simp]: "bindE (Inl e) f = Inl e"
  by (simp add: bindE_def)

lemma bindE_Inr [simp]: "bindE (Inr x) f = f x"
  by (simp add: bindE_def)

lemma bindE_eq_Inr: "bindE m f = Inr y \<longleftrightarrow> (\<exists>x. m = Inr x \<and> f x = Inr y)"
  by (cases m) simp_all

lemma remove_commas_idem: "remove_commas (remove_commas s) = remove_commas s"
  by (simp add: remove_commas_def)

lemma get_numeric_number:
  "is_number v \<Longrightarrow> get_numeric lib v = Inr (nonzero_or_empty v)"
  by (cases v) (simp_all add: get_numeric_def)

lemma nonzero_or_empty_not_zero:
  "nonzero_or_empty v \<noteq> JInt 0 \<and> nonzero_or_empty v \<noteq> JFloat (Fin 0) \<and> nonzero_or_empty v \<noteq> JBool False"
  by (cases v) (auto simp: nonzero_or_empty_def)

lemma get_numeric_not_zero:
  "get_numeric lib v = Inr r \<Longrightarrow> r \<noteq> JInt 0 \<and> r \<noteq> JFloat (Fin 0) \<and> r \<noteq> JBool False"
  using nonzero_or_empty_not_zero
  by (cases v)
     (auto simp: get_numeric_def Let_def split: option.splits sum.splits if_splits)

subsection \<open>Numeric coercion\<close>

text \<open>
  Claim C7. \<^verbatim>\<open>get_numeric\<close> returns a non-zero int or float (or \<^verbatim>\<open>True\<close>, which Python counts
  among the ints) unchanged, so coercing it twice is coercing it once. It maps the int 0, the
  float 0.0 and the strings \<^verbatim>\<open>'0'\<close> and \<^verbatim>\<open>'0.0'\<close> to the empty string and never returns
  the number 0. The commas of a string are removed before it is parsed; a string that
  \<^verbatim>\<open>float\<close> rejects, \<^verbatim>\<open>None\<close>, a list and a dict give the empty string. The two
  hypotheses say what \<^verbatim>\<open>float\<close> returns on \<^verbatim>\<open>'0'\<close> and \<^verbatim>\<open>'0.0'\<close>.
\<close>

theorem get_numeric_coercion:
  assumes z1: "float_of_str lib ''0'' = Some (Fin 0)"
      and z2: "float_of_str lib ''0.0'' = Some (Fin 0)"
  shows "(is_number v \<and> ne_zero v \<longrightarrow>
            get_numeric lib v = Inr v \<and>
            bindE (get_numeric lib v) (get_numeric lib) = get_numeric lib v) \<and>
         get_numeric lib (JInt 0) = Inr (JStr '''') \<and>
         get_numeric lib (JFloat (Fin 0)) = Inr (JStr '''') \<and>
         get_numeric lib (JStr ''0'') = Inr (JStr '''') \<and>
         get_numeric lib (JStr ''0.0'') = Inr (JStr '''') \<and>
         (get_numeric lib w = Inr r \<longrightarrow> r \<noteq> JInt 0 \<and> r \<noteq> JFloat (Fin 0)) \<and>
         get_numeric lib (JStr s) = get_numeric lib (JStr (remove_commas s)) \<and>
         (float_of_str lib (remove_commas s) = None \<longrightarrow> get_numeric lib (JStr s) = Inr (JStr '''')) \<and>
         get_numeric lib JNull = Inr (JStr '''') \<and>
         get_numeric lib (JList xs) = Inr (JStr '''') \<and>
         get_numeric lib (JDict kv) = Inr (JStr '''')"
proof -
  have idem: "is_number v \<and> ne_zero v \<longrightarrow>
            get_numeric lib v = Inr v \<and>
            bindE (get_numeric lib v) (get_numeric lib) = get_numeric lib v"
    by (simp add: get_numeric_number nonzero_or_empty_def)
  have zi: "get_numeric lib (JInt 0) = Inr (JStr '''')"
    by (simp add: get_numeric_def nonzero_or_empty_def)
  have zf: "get_numeric lib (JFloat (Fin 0)) = Inr (JStr '''')"
    by (simp add: get_numeric_def nonzero_or_empty_def)
  have zs: "get_numeric lib (JStr ''0'') = Inr (JStr '''')"
    using z1 by (simp add: get_numeric_def remove_commas_def lower_def lower_char_def trunc_def nonzero_or_empty_def)
  have zd: "get_numeric lib (JStr ''0.0'') = Inr (JStr '''')"
    using z2 by (simp add: get_numeric_def remove_commas_def nonzero_or_empty_def)
  have nz: "get_numeric lib w = Inr r \<longrightarrow> r \<noteq> JInt 0 \<and> r \<noteq> JFloat (Fin 0)"
    using get_numeric_not_zero by blast
  have commas: "get_numeric lib (JStr s) = get_numeric lib (JStr (remove_commas s))"
    by (simp add: get_numeric_def remove_commas_idem)
  have unparse: "float_of_str lib (remove_commas s) = None \<longrightarrow> get_numeric lib (JStr s) = Inr (JStr '''')"
    by (simp add: get_numeric_def Let_def)
  have other: "get_numeric lib JNull = Inr (JStr '''') \<and>
         get_numeric lib (JList xs) = Inr (JStr '''') \<and>
         get_numeric lib (JDict kv) = Inr (JStr '''')"
    by (simp add: get_numeric_def)
  from idem zi zf zs zd nz commas unparse other show ?thesis by blast
qed

theorem get_numeric_coercion_witness:
  "float_of_str exact_utc ''0'' = Some (Fin 0) \<and>
   float_of_str exact_utc ''0.0'' = Some (Fin 0) \<and>
   get_numeric exact_utc (JFloat (Fin (5 / 2))) = Inr (JFloat (Fin (5 / 2))) \<and>
   bindE (get_numeric exact_utc (JFloat (Fin (5 / 2)))) (get_numeric exact_utc) = Inr (JFloat (Fin (5 / 2))) \<and>
   get_numeric exact_utc (JStr ''0'') = Inr (JStr '''') \<and>
   get_numeric exact_utc (JStr ''0.0'') = Inr (JStr '''') \<and>
   get_numeric exact_utc (JStr ''1,234'') = Inr (JInt 1234) \<and>
   float_of_str exact_utc (remove_commas ''1,2x'') = None \<and>
   get_numeric exact_utc (JStr ''1,2x'') = Inr (JStr '''')"
proof -
  have h1: "float_of_str exact_utc ''0'' = Some (Fin 0)" by code_simp
  have h2: "float_of_str exact_utc ''0.0'' = Some (Fin 0)" by code_simp
  have h3: "float_of_str exact_utc (remove_commas ''1,2x'') = None" by code_simp
  have h4: "get_numeric exact_utc (JStr (remove_commas ''1,234'')) = Inr (JInt 1234)" by code_simp
  have h5: "is_number (JFloat (Fin (5 / 2))) \<and> ne_zero (JFloat (Fin (5 / 2)))" by simp
  note t = get_numeric_coercion [OF h1 h2, where v = "JFloat (Fin (5 / 2))"]
  note t1 = get_numeric_coercion [OF h1 h2, where s = "''1,234''"]
  note t2 = get_numeric_coercion [OF h1 h2, where s = "''1,2x''"]
  from t h5 have a: "get_numeric exact_utc (JFloat (Fin (5 / 2))) = Inr (JFloat (Fin (5 / 2))) \<and>
   bindE (get_numeric exact_utc (JFloat (Fin (5 / 2)))) (get_numeric exact_utc) = Inr (JFloat (Fin (5 / 2)))"
    by metis
  from t have b: "get_numeric exact_utc (JStr ''0'') = Inr (JStr '''') \<and>
   get_numeric exact_utc (JStr ''0.0'') = Inr (JStr '''')" by blast
  from t1 h4 have c: "get_numeric exact_utc (JStr ''1,234'') = Inr (JInt 1234)" by metis
  from t2 h3 have d: "get_numeric exact_utc (JStr ''1,2x'') = Inr (JStr '''')" by blast
  from h1 h2 h3 a b c d show ?thesis by blast
qed

subsection \<open>Dictionary lookup\<close>

lemma strip_Nil [simp]: "strip [] = []"
  by (simp add: strip_def)

lemma nonblank_text_typed: "is_text x \<Longrightarrow> nonblank_text x = Inr (entry_text x)"
  by (cases x) (auto simp: entry_text_def)

lemma typed_dicts_entry:
  assumes "typed_dicts (JDict kv)" and "map_of kv name = Some d"
  shows "\<exists>xs. d = JList xs \<and> list_all is_text xs"
proof -
  from assms(2) have "(name, d) \<in> set kv" by (rule map_of_SomeD)
  with assms(1) have "is_text_list d" by (auto simp: list_all_iff)
  then show ?thesis by (cases d) simp_all
qed

lemma seq_get_in_range: "0 \<le> i \<Longrightarrow> i < int (length xs) \<Longrightarrow> seq_get xs i = Inr (xs ! nat i)"
  by (simp add: seq_get_def)

lemma lookup_typed:
  assumes "typed_dicts vd"
  shows "lookup_text_direct vd index name = Inr (dictionary_entry vd index name)"
proof -
  from assms obtain kv where vd: "vd = JDict kv" by (cases vd) simp_all
  show ?thesis
  proof (cases "map_of kv name")
    case None
    then show ?thesis
      by (simp add: vd lookup_text_direct_def dictionary_entry_def)
  next
    case (Some d)
    with assms vd obtain xs where d: "d = JList xs" and all_text: "list_all is_text xs"
      using typed_dicts_entry by blast
    show ?thesis
    proof (cases "as_int index")
      case None
      then show ?thesis
        by (simp add: vd Some d lookup_text_direct_def dictionary_entry_def)
    next
      case (Some i)
      then have nn: "index \<noteq> JNull" by (cases index) simp_all
      show ?thesis
      proof (cases "0 \<le> i \<and> i < int (length xs)")
        case True
        then have "nat i < length xs" by linarith
        with all_text have "is_text (xs ! nat i)"
          by (simp add: list_all_length)
        then show ?thesis
          using True nn Some \<open>map_of kv name = Some d\<close>
          by (simp add: vd d lookup_text_direct_def dictionary_entry_def
                seq_get_in_range nonblank_text_typed)
      next
        case False
        then show ?thesis
          using nn Some \<open>map_of kv name = Some d\<close>
          by (auto simp: vd d lookup_text_direct_def dictionary_entry_def)
      qed
    qed
  qed
qed

text \<open>
  Claim C8. On a value dictionary of the decoder's type, \<^verbatim>\<open>lookup_text_direct\<close> never raises,
  for any index value and any dictionary name: it returns the dictionary's entry when the
  name is known, the index is an integer that is not negative and is below the dictionary's
  length, and the entry is not blank after trimming, and the empty string in every other
  case: an unknown name, an index that is not an integer, an index out of range, a blank
  entry (\<open>dictionary_entry\<close> spells the rule out).
\<close>

theorem lookup_text_direct_total:
  assumes "typed_dicts value_dicts"
  shows "lookup_text_direct value_dicts index name =
           Inr (dictionary_entry value_dicts index name) \<and>
         (dict_field value_dicts name = None \<longrightarrow>
            lookup_text_direct value_dicts index name = Inr '''') \<and>
         (as_int index = None \<longrightarrow> lookup_text_direct value_dicts index name = Inr '''') \<and>
         (\<forall>xs i. dict_field value_dicts name = Some (JList xs) \<and> as_int index = Some i \<longrightarrow>
            (i < 0 \<or> int (length xs) \<le> i \<longrightarrow>
               lookup_text_direct value_dicts index name = Inr '''') \<and>
            (0 \<le> i \<and> i < int (length xs) \<longrightarrow>
               (\<forall>s. xs ! nat i = JStr s \<longrightarrow>
                  lookup_text_direct value_dicts index name =
                    Inr (if strip s = [] then '''' else s))))"
proof -
  note eq = lookup_typed [OF assms, of index name]
  from assms obtain kv where vd: "value_dicts = JDict kv" by (cases value_dicts) simp_all
  note eq' = eq [unfolded vd]
  have unknown: "dict_field value_dicts name = None \<longrightarrow>
            lookup_text_direct value_dicts index name = Inr ''''"
    by (simp add: eq' vd dictionary_entry_def)
  have not_int: "as_int index = None \<longrightarrow> lookup_text_direct value_dicts index name = Inr ''''"
    by (simp add: eq' vd dictionary_entry_def split: option.splits json.splits)
  have known: "(i < 0 \<or> int (length xs) \<le> i \<longrightarrow>
               lookup_text_direct value_dicts index name = Inr '''') \<and>
            (0 \<le> i \<and> i < int (length xs) \<longrightarrow>
               (\<forall>s. xs ! nat i = JStr s \<longrightarrow>
                  lookup_text_direct value_dicts index name =
                    Inr (if strip s = [] then '''' else s)))"
    if "dict_field value_dicts name = Some (JList xs) \<and> as_int index = Some i" for xs i
    using that by (auto simp: eq' vd dictionary_entry_def entry_text_def)
  from eq unknown not_int known show ?thesis by blast
qed

theorem lookup_text_direct_total_witness:
  "typed_dicts sample_dicts \<and>
   lookup_text_direct sample_dicts (JInt 2) ''D0'' = Inr ''FPSO X'' \<and>
   lookup_text_direct sample_dicts (JInt 1) ''D0'' = Inr '''' \<and>
   lookup_text_direct sample_dicts (JInt 3) ''D0'' = Inr '''' \<and>
   lookup_text_direct sample_dicts (JInt (- 1)) ''D0'' = Inr '''' \<and>
   lookup_text_direct sample_dicts (JFloat (Fin 2)) ''D0'' = Inr '''' \<and>
   lookup_text_direct sample_dicts (JInt 0) ''D7'' = Inr ''''"
proof -
  have t: "typed_dicts sample_dicts" by code_simp
  have e: "dictionary_entry sample_dicts (JInt 2) ''D0'' = ''FPSO X''"
          "dictionary_entry sample_dicts (JInt 1) ''D0'' = ''''"
          "dictionary_entry sample_dicts (JInt 3) ''D0'' = ''''"
          "dictionary_entry sample_dicts (JInt (- 1)) ''D0'' = ''''"
          "dictionary_entry sample_dicts (JFloat (Fin 2)) ''D0'' = ''''"
          "dictionary_entry sample_dicts (JInt 0) ''D7'' = ''''"
    by code_simp+
  show ?thesis
    using t e lookup_text_direct_total [OF t] by simp
qed

subsection \<open>Timestamps to dates\<close>

lemma convert_number:
  assumes "is_text v \<or> is_number v" and "truthy v" and "timestamp_num lib v = Some g"
  shows "convert_timestamp_to_date lib v = Inr (date_of_number lib g)"
  using assms by (cases v) (auto simp: convert_timestamp_to_date_def split: if_splits)

lemma convert_returns:
  assumes "is_text v \<or> is_number v"
  shows "\<exists>d. convert_timestamp_to_date lib v = Inr d"
  using assms by (cases v) (auto simp: convert_timestamp_to_date_def split: option.splits)

text \<open>
  Claim C10. \<^verbatim>\<open>convert_timestamp_to_date\<close> returns a string, and never raises, on every
  string, int and float (and bool). A falsy input gives the empty string. When \<^verbatim>\<open>float\<close>
  reads the input as the number \<open>g\<close>: a \<open>g\<close> that is not positive gives the empty string, a
  \<open>g\<close> above \<open>10^10\<close> is divided by 1000 and the quotient is read as epoch seconds, and any
  other \<open>g\<close> is read as epoch seconds itself (\<open>date_or_empty\<close> is the date, or the empty
  string when \<^verbatim>\<open>datetime.fromtimestamp\<close> raises). A string that \<^verbatim>\<open>float\<close> rejects gives its
  first 10 characters when it has at least 10 characters and a hyphen among them, and the
  empty string otherwise. An int too large for \<^verbatim>\<open>float\<close> gives the empty string.
\<close>

theorem convert_timestamp_to_date_total:
  "(is_text v \<or> is_number v \<longrightarrow> (\<exists>d. convert_timestamp_to_date lib v = Inr d)) \<and>
   (\<not> truthy v \<longrightarrow> convert_timestamp_to_date lib v = Inr '''') \<and>
   ((is_text v \<or> is_number v) \<and> truthy v \<and> timestamp_num lib v = Some g \<longrightarrow>
      convert_timestamp_to_date lib v =
        Inr (if float_le g 0 then ''''
             else if float_gt g 10000000000 then date_or_empty lib (div_1000 lib g)
             else date_or_empty lib g)) \<and>
   (float_of_str lib s = None \<longrightarrow>
      convert_timestamp_to_date lib (JStr s) =
        Inr (if 10 \<le> length s \<and> CHR ''-'' \<in> set s then take 10 s else '''')) \<and>
   (is_number v \<and> timestamp_num lib v = None \<longrightarrow> convert_timestamp_to_date lib v = Inr '''')"
proof -
  have total: "is_text v \<or> is_number v \<longrightarrow> (\<exists>d. convert_timestamp_to_date lib v = Inr d)"
    using convert_returns by blast
  have falsy: "\<not> truthy v \<longrightarrow> convert_timestamp_to_date lib v = Inr ''''"
    by (simp add: convert_timestamp_to_date_def)
  have num: "(is_text v \<or> is_number v) \<and> truthy v \<and> timestamp_num lib v = Some g \<longrightarrow>
      convert_timestamp_to_date lib v =
        Inr (if float_le g 0 then ''''
             else if float_gt g 10000000000 then date_or_empty lib (div_1000 lib g)
             else date_or_empty lib g)"
    using convert_number [of v lib g]
    by (auto simp: date_of_number_def date_or_empty_def Let_def)
  have str: "float_of_str lib s = None \<longrightarrow>
      convert_timestamp_to_date lib (JStr s) =
        Inr (if 10 \<le> length s \<and> CHR ''-'' \<in> set s then take 10 s else '''')"
    by (auto simp: convert_timestamp_to_date_def)
  have ovf: "is_number v \<and> timestamp_num lib v = None \<longrightarrow> convert_timestamp_to_date lib v = Inr ''''"
    by (cases v) (auto simp: convert_timestamp_to_date_def)
  from total falsy num str ovf show ?thesis by blast
qed



theorem convert_timestamp_to_date_total_witness:
  "convert_timestamp_to_date exact_utc (JInt 1700000000000) = Inr ''2023-11-14'' \<and>
   convert_timestamp_to_date exact_utc (JFloat (Fin 86400)) = Inr ''1970-01-02'' \<and>
   convert_timestamp_to_date exact_utc (JInt (- 5)) = Inr '''' \<and>
   convert_timestamp_to_date exact_utc (JStr ''2024-01-15T10:30'') = Inr ''2024-01-15'' \<and>
   convert_timestamp_to_date exact_utc (JStr ''n/a'') = Inr ''''"
proof -
  have a: "(is_text (JInt 1700000000000) \<or> is_number (JInt 1700000000000)) \<and>
           truthy (JInt 1700000000000) \<and>
           timestamp_num exact_utc (JInt 1700000000000) = Some (Fin 1700000000000)"
    by code_simp
  have a': "(if float_le (Fin 1700000000000) 0 then ''''
             else if float_gt (Fin 1700000000000) 10000000000
                  then date_or_empty exact_utc (div_1000 exact_utc (Fin 1700000000000))
             else date_or_empty exact_utc (Fin 1700000000000)) = ''2023-11-14''"
    by code_simp
  have b: "(is_text (JFloat (Fin 86400)) \<or> is_number (JFloat (Fin 86400))) \<and>
           truthy (JFloat (Fin 86400)) \<and>
           timestamp_num exact_utc (JFloat (Fin 86400)) = Some (Fin 86400)"
    by code_simp
  have b': "(if float_le (Fin 86400) 0 then ''''
             else if float_gt (Fin 86400) 10000000000
                  then date_or_empty exact_utc (div_1000 exact_utc (Fin 86400))
             else date_or_empty exact_utc (Fin 86400)) = ''1970-01-02''"
    by code_simp
  have c: "(is_text (JInt (- 5)) \<or> is_number (JInt (- 5))) \<and>
           truthy (JInt (- 5)) \<and>
           timestamp_num exact_utc (JInt (- 5)) = Some (Fin (- 5))"
    by code_simp
  have c': "(if float_le (Fin (- 5)) 0 then ''''
             else if float_gt (Fin (- 5)) 10000000000
                  then date_or_empty exact_utc (div_1000 exact_utc (Fin (- 5)))
             else date_or_empty exact_utc (Fin (- 5))) = ''''"
    by code_simp
  have d: "float_of_str exact_utc ''2024-01-15T10:30'' = None" by code_simp
  have d': "(if 10 \<le> length ''2024-01-15T10:30'' \<and> CHR ''-'' \<in> set ''2024-01-15T10:30''
             then take 10 ''2024-01-15T10:30'' else '''') = ''2024-01-15''"
    by code_simp
  have e: "float_of_str exact_utc ''n/a'' = None" by code_simp
  have e': "(if 10 \<le> length ''n/a'' \<and> CHR ''-'' \<in> set ''n/a''
             then take 10 ''n/a'' else '''') = ''''"
    by code_simp
  have 1: "convert_timestamp_to_date exact_utc (JInt 1700000000000) = Inr ''2023-11-14''"
    using a convert_timestamp_to_date_total
         [where lib = exact_utc and v = "JInt 1700000000000" and g = "Fin 1700000000000"]
    unfolding a' by blast
  have 2: "convert_timestamp_to_date exact_utc (JFloat (Fin 86400)) = Inr ''1970-01-02''"
    using b convert_timestamp_to_date_total
         [where lib = exact_utc and v = "JFloat (Fin 86400)" and g = "Fin 86400"]
    unfolding b' by blast
  have 3: "convert_timestamp_to_date exact_utc (JInt (- 5)) = Inr ''''"
    using c convert_timestamp_to_date_total
         [where lib = exact_utc and v = "JInt (- 5)" and g = "Fin (- 5)"]
    unfolding c' by blast
  have 4: "convert_timestamp_to_date exact_utc (JStr ''2024-01-15T10:30'') = Inr ''2024-01-15''"
    using d convert_timestamp_to_date_total [where lib = exact_utc and s = "''2024-01-15T10:30''"]
    unfolding d' by blast
  have 5: "convert_timestamp_to_date exact_utc (JStr ''n/a'') = Inr ''''"
    using e convert_timestamp_to_date_total [where lib = exact_utc and s = "''n/a''"]
    unfolding e' by blast
  from 1 2 3 4 5 show ?thesis by blast
qed

subsection \<open>Structural errors\<close>

lemma dict_field_get:
  "dict_field j k = Some v \<Longrightarrow> py_get j k d = Inr v"
  by (cases j) simp_all

lemma extract_no_results:
  assumes "no_results json_data"
  shows "extract_data_from_json lib json_data = Inl ValueError"
proof -
  from assms obtain kv where j: "json_data = JDict kv" by (cases json_data) simp_all
  from assms j have "py_get json_data ''results'' (JList []) = Inr (JList [])"
    by (auto split: option.splits)
  then show ?thesis by (simp add: extract_data_from_json_def)
qed

lemma extract_no_data_shapes:
  assumes "no_data_shapes json_data"
  shows "extract_data_from_json lib json_data = Inl ValueError"
proof -
  from assms obtain r0 rest res result_data dsr where
        r: "dict_field json_data ''results'' = Some (JList (r0 # rest))"
    and a: "dict_field r0 ''result'' = Some res"
    and b: "dict_field res ''data'' = Some result_data"
    and c: "dict_field result_data ''dsr'' = Some dsr"
    and d: "dict_field dsr ''DS'' = Some (JList [])"
    by (auto simp: no_data_shapes_def first_data_shapes_def Option.bind_eq_Some_conv
             split: option.splits json.splits list.splits)
  from c obtain kv where rd: "result_data = JDict kv" by (cases result_data) simp_all
  have t: "\<exists>ts. py_get result_data ''timestamp'' (JStr '''') = Inr ts"
    by (simp add: rd)
  then obtain ts where t': "py_get result_data ''timestamp'' (JStr '''') = Inr ts" ..
  show ?thesis
    by (simp add: extract_data_from_json_def dict_field_get [OF r] dict_field_get [OF a]
          dict_field_get [OF b] dict_field_get [OF c] dict_field_get [OF d] t' seq_get_def)
qed

text \<open>
  Claim C6. For every payload whose results list is empty or missing, or whose first result
  has an empty data-shape list, \<^verbatim>\<open>extract_data_from_json\<close> raises the ValueError of its
  structural checks, and \<^verbatim>\<open>process_json_to_csv\<close> re-raises it without having opened the output
  file: the error is not skipped and no table content is produced.
\<close>

theorem structural_error_aborts:
  assumes "no_results json_data \<or> no_data_shapes json_data"
  shows "extract_data_from_json lib json_data = Inl ValueError \<and>
         process_json_to_csv lib json_data = (Some ValueError, None)"
proof -
  from assms have "extract_data_from_json lib json_data = Inl ValueError"
    using extract_no_results extract_no_data_shapes by blast
  then show ?thesis by (simp add: process_json_to_csv_def)
qed

theorem structural_error_aborts_witness:
  "no_results (JDict [(''results'', JList [])]) \<and>
   process_json_to_csv exact_utc (JDict [(''results'', JList [])]) = (Some ValueError, None) \<and>
   no_results (JDict []) \<and>
   process_json_to_csv exact_utc (JDict []) = (Some ValueError, None) \<and>
   no_data_shapes (response_with (JList [])) \<and>
   process_json_to_csv exact_utc (response_with (JList [])) = (Some ValueError, None)"
proof -
  have a: "no_results (JDict [(''results'', JList [])])" by code_simp
  have b: "no_results (JDict [])" by code_simp
  have c: "no_data_shapes (response_with (JList []))" by code_simp
  from a have a': "no_results (JDict [(''results'', JList [])]) \<or>
                   no_data_shapes (JDict [(''results'', JList [])])" ..
  from b have b': "no_results (JDict []) \<or> no_data_shapes (JDict [])" ..
  from c have c': "no_results (response_with (JList [])) \<or>
                   no_data_shapes (response_with (JList []))" ..
  from a b c structural_error_aborts [OF a', of exact_utc]
    structural_error_aborts [OF b', of exact_utc]
    structural_error_aborts [OF c', of exact_utc]
  show ?thesis by blast
qed

subsection \<open>The date scan\<close>

lemma step_date_cases:
  assumes "step_date lib cur row = Inr d"
  shows "case epoch_row row of
           Some v \<Rightarrow> convert_timestamp_to_date lib v = Inr d
         | None \<Rightarrow> d = cur"
proof (cases row)
  case (JList xs)
  show ?thesis
  proof (cases "length xs = 1 \<or> 4 \<le> length xs")
    case True
    then have g: "seq_get xs 0 = Inr (xs ! 0)"
      by (auto simp: seq_get_def)
    from True assms show ?thesis
      unfolding JList
      by (auto simp: step_date_def date_guard_def new_date_def g
               split: if_splits)
  next
    case False
    with assms show ?thesis
      unfolding JList by (auto simp: step_date_def date_guard_def)
  qed
next
  case (JStr s)
  have "\<And>c. is_epoch_ms (JStr c) = False" by (simp add: is_epoch_ms_def)
  with assms show ?thesis
    unfolding JStr
    by (auto simp: step_date_def date_guard_def bindE_eq_Inr split: if_splits)
next
  case (JDict kv)
  with assms show ?thesis
    by (auto simp: step_date_def date_guard_def split: if_splits)
qed (use assms in \<open>simp_all add: step_date_def\<close>)

lemma assign_dates_scan:
  "assign_dates lib cur rows = Inr ds \<Longrightarrow>
   length ds = length rows \<and>
   (\<forall>k<length rows.
      case epoch_row (rows ! k) of
        Some v \<Rightarrow> convert_timestamp_to_date lib v = Inr (ds ! k)
      | None \<Rightarrow> ds ! k = (if k = 0 then cur else ds ! (k - 1)))"
proof (induction rows arbitrary: cur ds)
  case Nil
  then show ?case by simp
next
  case (Cons row rows)
  from Cons.prems obtain d ds' where
        st: "step_date lib cur row = Inr d"
    and rest: "assign_dates lib d rows = Inr ds'"
    and ds: "ds = d # ds'"
    by (auto simp: bindE_eq_Inr)
  note ih = Cons.IH [OF rest]
  from ih have len: "length ds = length (row # rows)" by (simp add: ds)
  have "case epoch_row ((row # rows) ! k) of
          Some v \<Rightarrow> convert_timestamp_to_date lib v = Inr (ds ! k)
        | None \<Rightarrow> ds ! k = (if k = 0 then cur else ds ! (k - 1))"
    if k: "k < length (row # rows)" for k
  proof (cases k)
    case 0
    with step_date_cases [OF st] show ?thesis by (simp add: ds split: option.splits)
  next
    case (Suc j)
    with k have j: "j < length rows" by simp
    from ih j have
      "case epoch_row (rows ! j) of
         Some v \<Rightarrow> convert_timestamp_to_date lib v = Inr (ds' ! j)
       | None \<Rightarrow> ds' ! j = (if j = 0 then d else ds' ! (j - 1))"
      by blast
    then show ?thesis
      unfolding Suc ds by (cases j) (auto split: option.splits)
  qed
  with len show ?case by blast
qed

lemma extract_dates:
  assumes "extract_data_from_json lib json_data = Inr (rows, vd, ts, dates)"
  shows "assign_dates lib '''' rows = Inr dates"
  using assms
  by (auto simp: extract_data_from_json_def bindE_eq_Inr split: if_splits)

text \<open>
  Claim C4, amended. When the extractor returns, its date sequence has one date per extracted
  row and is the forward scan that starts from the empty string: a row that is a list of
  length 1 or of length at least 4 whose first element is a number above \<open>10^12\<close> sets the
  current date to the conversion of that element; every other row, a list of length 2 or 3
  included, carries the previous date forward.
\<close>

theorem row_dates_forward_scan:
  assumes "extract_data_from_json lib json_data = Inr (rows, vd, ts, dates)"
  shows "length dates = length rows \<and>
         (\<forall>k<length rows.
            case epoch_row (rows ! k) of
              Some v \<Rightarrow> convert_timestamp_to_date lib v = Inr (dates ! k)
            | None \<Rightarrow> dates ! k = (if k = 0 then '''' else dates ! (k - 1)))"
  using assign_dates_scan [OF extract_dates [OF assms]] .


theorem row_dates_forward_scan_witness:
  "extract_data_from_json exact_utc (sample_payload (JDict []) scan_rows []) =
     Inr (scan_rows, JDict [], JStr ''2024-01-31T12:00:00'',
          [''2023-11-14'', ''2023-11-14'', ''2023-11-14'', ''2027-01-15'']) \<and>
   epoch_row (scan_rows ! 2) = None \<and>
   epoch_row (scan_rows ! 3) = Some (JInt 1800000000000) \<and>
   convert_timestamp_to_date exact_utc (JInt 1800000000000) = Inr ''2027-01-15''"
proof -
  have e: "extract_data_from_json exact_utc (sample_payload (JDict []) scan_rows []) =
     Inr (scan_rows, JDict [], JStr ''2024-01-31T12:00:00'',
          [''2023-11-14'', ''2023-11-14'', ''2023-11-14'', ''2027-01-15''])"
    by code_simp
  have r2: "epoch_row (scan_rows ! 2) = None" by code_simp
  have r3: "epoch_row (scan_rows ! 3) = Some (JInt 1800000000000)" by code_simp
  have n: "3 < length scan_rows" by code_simp
  from row_dates_forward_scan [OF e] n have
    "case epoch_row (scan_rows ! 3) of
       Some v \<Rightarrow> convert_timestamp_to_date exact_utc v =
                  Inr ([''2023-11-14'', ''2023-11-14'', ''2023-11-14'', ''2027-01-15''] ! 3)
     | None \<Rightarrow> [''2023-11-14'', ''2023-11-14'', ''2023-11-14'', ''2027-01-15''] ! 3 =
              (if (3::nat) = 0 then ''''
               else [''2023-11-14'', ''2023-11-14'', ''2023-11-14'', ''2027-01-15''] ! (3 - 1))"
    by blast
  with r3 have "convert_timestamp_to_date exact_utc (JInt 1800000000000) = Inr ''2027-01-15''"
    by simp
  with e r2 r3 show ?thesis by blast
qed

text \<open>
  The claim as stated fails on a row of length 2 that starts with an epoch-millisecond
  value: the extractor leaves the current date empty, where a scan that updates on rows of
  any length gives the date of that value.
\<close>

theorem row_dates_any_length_counterexample:
  "extract_data_from_json exact_utc
     (sample_payload (JDict []) [JList [JInt 1700000000000, JInt 5]] []) =
     Inr ([JList [JInt 1700000000000, JInt 5]], JDict [], JStr ''2024-01-31T12:00:00'', ['''']) \<and>
   dates_for_any_length exact_utc '''' [JList [JInt 1700000000000, JInt 5]] = [''2023-11-14'']"
  by code_simp

subsection \<open>The decoder\<close>

lemma summary_all_numbers:
  "list_all summary_number vals \<Longrightarrow> summary_all vals = Inr True"
proof (induction vals)
  case Nil
  then show ?case by simp
next
  case (Cons v vals)
  then show ?case by (cases v) simp_all
qed

lemma summary_number_is_number: "summary_number v \<Longrightarrow> is_number v"
  by (cases v) simp_all

lemma detail_row_accepts:
  assumes "detail_row lib data_row vd csv = Inr (Some r)"
  shows "installation r \<noteq> [] \<and>
         (truthy (oil_production r) \<or> truthy (gas_production r) \<or>
          truthy (oil_equivalents_boe r))"
  using assms
  by (auto simp: detail_row_def Let_def bindE_eq_Inr split: option.splits if_splits)

lemma init_row_installation [simp]: "installation (init_row ts rd) = []"
  by (simp add: init_row_def)

text \<open>A record the decoder returns comes from a row of length 4 and has an empty
  installation, or from a row of length at least 9 and has passed the final test of the
  detail branch.\<close>

lemma decoder_record_shape:
  assumes "map_data_row_to_csv lib data_row value_dicts timestamp row_date = Inr (Some r)"
  shows "(length data_row = 4 \<and> installation r = []) \<or>
         (9 \<le> length data_row \<and> installation r \<noteq> [] \<and>
          (truthy (oil_production r) \<or> truthy (gas_production r) \<or>
           truthy (oil_equivalents_boe r)))"
proof (cases "length data_row = 4")
  case True
  with assms have "installation r = []"
    by (auto simp: map_data_row_to_csv_def Let_def bindE_eq_Inr split: if_splits)
  with True show ?thesis by blast
next
  case False
  with assms have "9 \<le> length data_row \<and>
      detail_row lib data_row value_dicts (init_row timestamp row_date) = Inr (Some r)"
    by (auto simp: map_data_row_to_csv_def Let_def split: if_splits)
  with detail_row_accepts show ?thesis by blast
qed

lemma decode_row_shape:
  assumes "decode_row lib row vd ts d = Inr (Some r)"
  shows "(py_len row = Inr 4 \<and> installation r = []) \<or>
         (\<exists>n. py_len row = Inr n \<and> 9 \<le> n \<and> installation r \<noteq> [] \<and>
              (truthy (oil_production r) \<or> truthy (gas_production r) \<or>
               truthy (oil_equivalents_boe r)))"
proof (cases row)
  case (JList xs)
  with assms decoder_record_shape [of lib xs vd ts d r] show ?thesis by auto
next
  case (JStr s)
  with assms decoder_record_shape [of lib "map (\<lambda>c. JStr [c]) s" vd ts d r] show ?thesis
    by auto
next
  case (JDict kv)
  with assms show ?thesis by (simp split: if_splits)
qed (use assms in simp_all)

lemma decode_rows_source:
  "Some r \<in> set (decode_rows lib rows vd ts dates i) \<Longrightarrow>
   \<exists>row\<in>set rows. \<exists>d. decode_row lib row vd ts d = Inr (Some r)"
proof (induction rows arbitrary: i)
  case Nil
  then show ?case by simp
next
  case (Cons row rows)
  show ?case
  proof (cases "bindE (seq_get dates (int i)) (decode_row lib row vd ts)")
    case (Inl e)
    with Cons.prems have "Some r \<in> set (decode_rows lib rows vd ts dates (Suc i))" by simp
    from Cons.IH [OF this] show ?thesis by auto
  next
    case (Inr csv)
    with Cons.prems consider "csv = Some r"
      | "Some r \<in> set (decode_rows lib rows vd ts dates (Suc i))" by auto
    then show ?thesis
    proof cases
      case 1
      with Inr obtain d where "decode_row lib row vd ts d = Inr (Some r)"
        by (auto simp: bindE_eq_Inr)
      then show ?thesis by auto
    next
      case 2
      from Cons.IH [OF this] show ?thesis by auto
    qed
  qed
qed

lemma write_csv_file_written:
  "write_csv_file rows = (w, e) \<Longrightarrow> r \<in> set w \<Longrightarrow> Some r \<in> set rows"
proof (induction rows arbitrary: w e)
  case Nil
  then show ?case by simp
next
  case (Cons x rows)
  show ?case
  proof (cases x)
    case None
    with Cons.prems show ?thesis by simp
  next
    case (Some r0)
    obtain w' e' where we: "write_csv_file rows = (w', e')" by (cases "write_csv_file rows")
    with Cons.prems Some have w: "w = r0 # w'" by simp
    with Cons.prems(2) consider "r = r0" | "r \<in> set w'" by auto
    then show ?thesis
    proof cases
      case 1
      with Some show ?thesis by simp
    next
      case 2
      from Cons.IH [OF we this] show ?thesis by simp
    qed
  qed
qed

text \<open>
  Claim C1, amended. Every record that one decode pass writes to the output comes from an
  extracted row of length exactly 4 (a summary or timestamped summary row) and then has an
  empty installation, or from an extracted row of length at least 9 (a detail row) and then
  has a non-empty installation and at least one populated field among oil_production,
  gas_production and oil_equivalents_boe.
\<close>

theorem emitted_record_shape:
  assumes "process_json_to_csv lib json_data = (e, Some w)" and "r \<in> set w"
  shows "\<exists>rows vd ts dates.
           extract_data_from_json lib json_data = Inr (rows, vd, ts, dates) \<and>
           (\<exists>row\<in>set rows.
              (py_len row = Inr 4 \<and> installation r = []) \<or>
              (\<exists>n. py_len row = Inr n \<and> 9 \<le> n \<and> installation r \<noteq> [] \<and>
                   (truthy (oil_production r) \<or> truthy (gas_production r) \<or>
                    truthy (oil_equivalents_boe r))))"
proof -
  from assms(1) obtain rows vd ts dates where
        x: "extract_data_from_json lib json_data = Inr (rows, vd, ts, dates)"
    and wr: "write_csv_file (decode_rows lib rows vd ts dates 0) = (w, e)"
    by (auto simp: process_json_to_csv_def split: sum.splits prod.splits)
  from write_csv_file_written [OF wr assms(2)]
  have "Some r \<in> set (decode_rows lib rows vd ts dates 0)" .
  from decode_rows_source [OF this] obtain row d where
    "row \<in> set rows" "decode_row lib row vd ts d = Inr (Some r)" by blast
  with decode_row_shape x show ?thesis by blast
qed


theorem emitted_record_shape_witness:
  "process_json_to_csv exact_utc (sample_payload detail_dicts [] [JList detail_example]) =
     (None, Some [(init_row (JStr ''2024-01-31T12:00:00'') '''')
            \<lparr>installation := ''P-1'', oil_production := JFloat (Fin (241 / 2)),
             gas_production := JFloat (Fin (151 / 5)),
             oil_equivalents_boe := JFloat (Fin (8001 / 10)), operator := ''Operator X'',
             type := [CHR ''G'', char_of (225 :: nat), CHR ''s''], quantity := JInt 5,
             status := ''s5''\<rparr>]) \<and>
   py_len (JList detail_example) = Inr 11 \<and>
   installation ((init_row (JStr ''2024-01-31T12:00:00'') '''')
            \<lparr>installation := ''P-1'', oil_production := JFloat (Fin (241 / 2)),
             gas_production := JFloat (Fin (151 / 5)),
             oil_equivalents_boe := JFloat (Fin (8001 / 10)), operator := ''Operator X'',
             type := [CHR ''G'', char_of (225 :: nat), CHR ''s''], quantity := JInt 5,
             status := ''s5''\<rparr>) \<noteq> []"
proof -
  let ?R = "(init_row (JStr ''2024-01-31T12:00:00'') '''')
            \<lparr>installation := ''P-1'', oil_production := JFloat (Fin (241 / 2)),
             gas_production := JFloat (Fin (151 / 5)),
             oil_equivalents_boe := JFloat (Fin (8001 / 10)), operator := ''Operator X'',
             type := [CHR ''G'', char_of (225 :: nat), CHR ''s''], quantity := JInt 5,
             status := ''s5''\<rparr>"
  have p: "process_json_to_csv exact_utc (sample_payload detail_dicts [] [JList detail_example]) =
             (None, Some [?R])"
    by code_simp
  have x: "extract_data_from_json exact_utc (sample_payload detail_dicts [] [JList detail_example]) =
             Inr ([JList detail_example], detail_dicts, JStr ''2024-01-31T12:00:00'', [''''])"
    by code_simp
  have n: "py_len (JList detail_example) = Inr 11" by code_simp
  have m: "?R \<in> set [?R]" by simp
  from emitted_record_shape [OF p m] x n have "installation ?R \<noteq> []"
    by auto
  with p n show ?thesis by blast
qed

text \<open>The claim as stated fails on a summary row: its record reaches the output file with an
  empty installation.\<close>

theorem summary_record_without_installation_counterexample:
  "process_json_to_csv exact_utc (sample_payload (JDict []) [JList summary_example] []) =
     (None, Some [(init_row (JStr ''2024-01-31T12:00:00'') '''')
                    \<lparr>oil_production := JFloat (Fin (401 / 2)), gas_production := JInt 300,
                     quantity := JStr '''', oil_equivalents_boe := JInt 800\<rparr>]) \<and>
   installation ((init_row (JStr ''2024-01-31T12:00:00'') '''')
                    \<lparr>oil_production := JFloat (Fin (401 / 2)), gas_production := JInt 300,
                     quantity := JStr '''', oil_equivalents_boe := JInt 800\<rparr>) = []"
  by code_simp

text \<open>The loop of \<^verbatim>\<open>process_json_to_csv\<close> appends the \<^verbatim>\<open>None\<close> of a discarded row, here a
  timestamp marker row, and \<^verbatim>\<open>write_csv_file\<close> raises AttributeError on it after the
  header.\<close>

lemma discarded_row_reaches_writer:
  "decode_rows exact_utc [JList [JInt 1700000000000]] (JDict []) (JStr ''t'') [''2023-11-14''] 0 =
     [None] \<and>
   process_json_to_csv exact_utc (sample_payload (JDict []) [JList [JInt 1700000000000]] []) =
     (Some AttributeError, Some [])"
  by code_simp

text \<open>The summary branch: a row of length 4 whose elements are each a float or an int above
  100 is decoded by it, whatever its first element.\<close>

lemma summary_branch:
  assumes "length data_row = 4" and "list_all summary_number data_row"
  shows "map_data_row_to_csv lib data_row value_dicts timestamp row_date =
           Inr (Some ((init_row timestamp row_date)
                  \<lparr>oil_production := nonzero_or_empty (data_row ! 0),
                   gas_production := nonzero_or_empty (data_row ! 1),
                   quantity := nonzero_or_empty (data_row ! 2),
                   oil_equivalents_boe := nonzero_or_empty (data_row ! 3)\<rparr>))"
proof -
  from assms have "\<forall>k<4. is_number (data_row ! k)"
    by (auto simp: list_all_length summary_number_is_number)
  then have "\<forall>k<4. get_numeric lib (data_row ! k) = Inr (nonzero_or_empty (data_row ! k))"
    by (simp add: get_numeric_number)
  then have g: "get_numeric lib (data_row ! 0) = Inr (nonzero_or_empty (data_row ! 0))"
               "get_numeric lib (data_row ! 1) = Inr (nonzero_or_empty (data_row ! 1))"
               "get_numeric lib (data_row ! 2) = Inr (nonzero_or_empty (data_row ! 2))"
               "get_numeric lib (data_row ! 3) = Inr (nonzero_or_empty (data_row ! 3))"
    by simp_all
  from g(2) have g1: "get_numeric lib (data_row ! Suc 0) = Inr (nonzero_or_empty (data_row ! Suc 0))"
    by simp
  from assms show ?thesis
    by (simp add: map_data_row_to_csv_def Let_def summary_all_numbers g g1)
qed

text \<open>
  Claim C3, amended. For every row of length 4 whose elements are each a float or an int
  above 100, and whose first element is not above \<open>10^12\<close>, the decoder returns the record
  whose oil_production, gas_production, quantity and oil_equivalents_boe are the elements 0,
  1, 2 and 3, a zero replaced by the empty string, with the ambient date and every other
  field as initialised.
\<close>

theorem summary_row_fields:
  assumes "length data_row = 4"
      and "list_all summary_number data_row"
      and "\<not> is_epoch_ms (data_row ! 0)"
  shows "map_data_row_to_csv lib data_row value_dicts timestamp row_date =
           Inr (Some ((init_row timestamp row_date)
                  \<lparr>oil_production := nonzero_or_empty (data_row ! 0),
                   gas_production := nonzero_or_empty (data_row ! 1),
                   quantity := nonzero_or_empty (data_row ! 2),
                   oil_equivalents_boe := nonzero_or_empty (data_row ! 3)\<rparr>)) \<and>
         date ((init_row timestamp row_date)
                  \<lparr>oil_production := nonzero_or_empty (data_row ! 0),
                   gas_production := nonzero_or_empty (data_row ! 1),
                   quantity := nonzero_or_empty (data_row ! 2),
                   oil_equivalents_boe := nonzero_or_empty (data_row ! 3)\<rparr>) = row_date \<and>
         (\<forall>k<4. get_numeric lib (data_row ! k) = Inr (nonzero_or_empty (data_row ! k)))"
proof -
  from assms(1,2) have "\<forall>k<4. is_number (data_row ! k)"
    by (auto simp: list_all_length summary_number_is_number)
  then have "\<forall>k<4. get_numeric lib (data_row ! k) = Inr (nonzero_or_empty (data_row ! k))"
    by (simp add: get_numeric_number)
  with summary_branch [OF assms(1,2)] show ?thesis
    by (simp add: init_row_def)
qed

theorem summary_row_fields_witness:
  "length summary_example = 4 \<and> list_all summary_number summary_example \<and>
   \<not> is_epoch_ms (summary_example ! 0) \<and>
   map_data_row_to_csv exact_utc summary_example (JDict []) (JStr ''t'') ''2024-01-01'' =
     Inr (Some ((init_row (JStr ''t'') ''2024-01-01'')
            \<lparr>oil_production := JFloat (Fin (401 / 2)), gas_production := JInt 300,
             quantity := JStr '''', oil_equivalents_boe := JInt 800\<rparr>))"
proof -
  have a: "length summary_example = 4" by code_simp
  have b: "list_all summary_number summary_example" by code_simp
  have c: "\<not> is_epoch_ms (summary_example ! 0)" by code_simp
  have v: "nonzero_or_empty (summary_example ! 0) = JFloat (Fin (401 / 2))"
          "nonzero_or_empty (summary_example ! 1) = JInt 300"
          "nonzero_or_empty (summary_example ! 2) = JStr ''''"
          "nonzero_or_empty (summary_example ! 3) = JInt 800"
    by code_simp+
  from summary_row_fields [OF a b c, of exact_utc "JDict []" "JStr ''t''" "''2024-01-01''"]
  have "map_data_row_to_csv exact_utc summary_example (JDict []) (JStr ''t'') ''2024-01-01'' =
     Inr (Some ((init_row (JStr ''t'') ''2024-01-01'')
            \<lparr>oil_production := JFloat (Fin (401 / 2)), gas_production := JInt 300,
             quantity := JStr '''', oil_equivalents_boe := JInt 800\<rparr>))"
    unfolding v by blast
  with a b c show ?thesis by blast
qed

text \<open>The claim as stated fails on a row of four ints that are not above 100: the row is
  discarded.\<close>

theorem summary_row_small_ints_counterexample:
  "length small_ints_example = 4 \<and>
   list_all is_number small_ints_example \<and>
   map_data_row_to_csv exact_utc small_ints_example (JDict []) (JStr ''t'') ''2024-01-01'' =
     Inr None"
  by code_simp

text \<open>Whatever the library does, a row of length 4 that starts with an int above \<open>10^12\<close> and
  goes on with three floats is decoded by the summary branch: the branch for timestamped
  summary rows is not reached, the epoch value becomes oil_production and the date stays
  the ambient one.\<close>

lemma timestamped_floats_shadowed:
  assumes "1000000000000 < t"
  shows "map_data_row_to_csv lib [JInt t, JFloat a, JFloat b, JFloat c] value_dicts timestamp
           row_date =
           Inr (Some ((init_row timestamp row_date)
                  \<lparr>oil_production := JInt t, gas_production := nonzero_or_empty (JFloat a),
                   quantity := nonzero_or_empty (JFloat b),
                   oil_equivalents_boe := nonzero_or_empty (JFloat c)\<rparr>))"
proof -
  from assms have "list_all summary_number [JInt t, JFloat a, JFloat b, JFloat c]" by simp
  from summary_branch [OF _ this, of lib value_dicts timestamp row_date] assms
  show ?thesis by (simp add: nonzero_or_empty_def)
qed

text \<open>
  Claim C2, at a failing input. The row of length 4 that starts with 1700000000000 and goes
  on with the floats 120.5, 30.25 and 800.125 passes the test of the summary branch, which
  comes first: the epoch value becomes oil_production, the elements 1, 2 and 3 become
  gas_production, quantity and oil_equivalents_boe, and the date stays the ambient one,
  where the branch for timestamped summary rows would have given the date 2023-11-14.
\<close>

theorem timestamped_row_taken_as_summary:
  "map_data_row_to_csv exact_utc timestamped_example (JDict []) (JStr ''t'') ''2020-01-01'' =
     Inr (Some ((init_row (JStr ''t'') ''2020-01-01'')
            \<lparr>oil_production := JInt 1700000000000, gas_production := JFloat (Fin (241 / 2)),
             quantity := JFloat (Fin (121 / 4)),
             oil_equivalents_boe := JFloat (Fin (6401 / 8))\<rparr>)) \<and>
   convert_timestamp_to_date exact_utc (timestamped_example ! 0) = Inr ''2023-11-14''"
  by code_simp

text \<open>Whatever the rest of the library does, once \<^verbatim>\<open>float\<close> reads a string without a point
  and without an \<^verbatim>\<open>e\<close> as an infinity, the coercion raises OverflowError.\<close>

lemma get_numeric_overflow:
  assumes "float_of_str lib (remove_commas s) = Some PInf \<or>
           float_of_str lib (remove_commas s) = Some NInf"
      and "CHR ''.'' \<notin> set (remove_commas s)"
      and "CHR ''e'' \<notin> set (lower (remove_commas s))"
  shows "get_numeric lib (JStr s) = Inl OverflowError"
  using assms by (auto simp: get_numeric_def Let_def)

text \<open>
  Claim C9, at a failing input. A row of four strings passes the test of the summary
  branch, but on the string \<^verbatim>\<open>'inf'\<close> the coercion computes \<^verbatim>\<open>int(float('inf'))\<close>, whose
  OverflowError the \<^verbatim>\<open>except (ValueError, TypeError)\<close> clause does not catch: the decoder
  raises instead of returning a record, and the decode pass skips the row.
\<close>

theorem infinity_string_raises:
  "summary_all infinity_example = Inr True \<and>
   map_data_row_to_csv exact_utc infinity_example (JDict []) (JStr ''t'') '''' =
     Inl OverflowError \<and>
   decode_rows exact_utc [JList infinity_example] (JDict []) (JStr ''t'') [''''] 0 = []"
  by code_simp

subsection \<open>Production values of a detail row\<close>

lemma find_quantity_SomeD:
  "find_quantity vs = Some (k, n) \<Longrightarrow>
   k < length vs \<and> quantity_int (vs ! k) = Some n \<and> (\<forall>j<k. quantity_int (vs ! j) = None)"
proof (induction vs arbitrary: k)
  case Nil
  then show ?case by simp
next
  case (Cons v vs)
  show ?case
  proof (cases "quantity_int v")
    case None
    with Cons.prems obtain k' where k: "k = Suc k'" and f: "find_quantity vs = Some (k', n)"
      by auto
    from Cons.IH [OF f] show ?thesis
      using None k by (auto simp: less_Suc_eq_0_disj)
  next
    case (Some m)
    with Cons.prems show ?thesis by simp
  qed
qed

lemma find_quantity_None_iff:
  "find_quantity vs = None \<longleftrightarrow> (\<forall>j<length vs. quantity_int (vs ! j) = None)"
proof (induction vs)
  case Nil
  then show ?case by simp
next
  case (Cons v vs)
  then show ?case
    by (cases "quantity_int v") (auto simp: less_Suc_eq_0_disj)
qed

lemma find_quantity_first:
  assumes "k < length vs" and "quantity_int (vs ! k) = Some n"
      and "\<forall>j<k. quantity_int (vs ! j) = None"
  shows "find_quantity vs = Some (k, n)"
proof (cases "find_quantity vs")
  case None
  with assms(1,2) show ?thesis by (simp add: find_quantity_None_iff)
next
  case (Some p)
  obtain k' n' where p: "p = (k', n')" by (cases p)
  from find_quantity_SomeD [OF Some [unfolded p]]
  have k': "k' < length vs" "quantity_int (vs ! k') = Some n'"
           "\<forall>j<k'. quantity_int (vs ! j) = None" by blast+
  have "k' = k"
  proof (rule ccontr)
    assume "k' \<noteq> k"
    then consider "k' < k" | "k < k'" by linarith
    then show False
    proof cases
      case 1
      with assms(3) k'(2) show False by simp
    next
      case 2
      with k'(3) assms(2) show False by simp
    qed
  qed
  with k'(2) assms(2) Some p show ?thesis by simp
qed

lemma assign_production_found:
  assumes "3 \<le> length vs" and "find_quantity vs = Some (k, n)"
  shows "quantity (assign_production r vs) = JInt n \<and>
         (2 \<le> k \<longrightarrow> oil_production (assign_production r vs) = JFloat (vs ! 0) \<and>
                    gas_production (assign_production r vs) = JFloat (vs ! 1)) \<and>
         (k = 1 \<and> is_gas_type (type r) \<longrightarrow>
            gas_production (assign_production r vs) = JFloat (vs ! 0) \<and>
            oil_production (assign_production r vs) = oil_production r) \<and>
         (k = 1 \<and> \<not> is_gas_type (type r) \<longrightarrow>
            oil_production (assign_production r vs) = JFloat (vs ! 0) \<and>
            gas_production (assign_production r vs) = gas_production r) \<and>
         (k + 1 < length vs \<longrightarrow>
            oil_equivalents_boe (assign_production r vs) = JFloat (vs ! (k + 1)))"
proof -
  from find_quantity_SomeD [OF assms(2)] have k: "k < length vs" by blast
  then have m: "min (length vs) k = k" by simp
  from assms k show ?thesis
    by (auto simp: assign_production_def Let_def m)
qed

lemma assign_production_not_found:
  assumes "3 \<le> length vs" and "find_quantity vs = None"
  shows "oil_production (assign_production r vs) = JFloat (vs ! 0) \<and>
         gas_production (assign_production r vs) = JFloat (vs ! 1) \<and>
         oil_equivalents_boe (assign_production r vs) = JFloat (vs ! 2)"
  using assms by (simp add: assign_production_def)

lemma assign_production_keeps:
  "installation (assign_production r vs) = installation r \<and>
   type (assign_production r vs) = type r"
  by (auto simp: assign_production_def Let_def split: option.splits)

lemma assign_production_populated:
  assumes "3 \<le> length vs" and "list_all float_nonzero vs"
  shows "truthy (oil_production (assign_production r vs)) \<or>
         truthy (gas_production (assign_production r vs)) \<or>
         truthy (oil_equivalents_boe (assign_production r vs))"
proof (cases "find_quantity vs")
  case None
  from assms(1) have "0 < length vs" by linarith
  with assms(2) have "float_nonzero (vs ! 0)" by (simp add: list_all_length)
  with assign_production_not_found [OF assms(1) None, of r] show ?thesis by simp
next
  case (Some p)
  obtain k n where p: "p = (k, n)" by (cases p)
  note f = assign_production_found [OF assms(1) Some [unfolded p], of r]
  from assms(1) have "0 < length vs" "1 < length vs" by linarith+
  with assms(2) have nz: "float_nonzero (vs ! 0)" "float_nonzero (vs ! 1)"
    by (simp_all add: list_all_length)
  consider "k = 0" | "k = 1" | "2 \<le> k" by linarith
  then show ?thesis
  proof cases
    case 1
    with f assms(1) have "oil_equivalents_boe (assign_production r vs) = JFloat (vs ! 1)"
      by simp
    with nz show ?thesis by simp
  next
    case 2
    with f nz show ?thesis by (cases "is_gas_type (type r)") simp_all
  next
    case 3
    with f nz show ?thesis by simp
  qed
qed

lemma production_values_nonzero: "list_all float_nonzero (production_values lib data_row)"
  by (simp add: production_values_def list_all_iff)

lemma code_status_typed:
  assumes "typed_dicts vd"
  shows "\<exists>r'. code_status vd data_row idxs r = Inr r' \<and>
              installation r' = installation r \<and> type r' = type r \<and>
              oil_production r' = oil_production r \<and>
              gas_production r' = gas_production r \<and>
              oil_equivalents_boe r' = oil_equivalents_boe r \<and>
              quantity r' = quantity r"
proof (induction idxs arbitrary: r)
  case Nil
  then show ?case by simp
next
  case (Cons i idxs)
  note look = lookup_typed [OF assms]
  show ?case
  proof (cases "as_int (get_value data_row i)")
    case None
    with Cons [of r] show ?thesis by (simp add: Let_def)
  next
    case (Some n)
    consider (code) "0 \<le> n \<and> n < 1000" "i = 8"
      | (status) "0 \<le> n \<and> n < 1000" "i = 9"
      | (skip) "\<not> (0 \<le> n \<and> n < 1000) \<or> (i \<noteq> 8 \<and> i \<noteq> 9)"
      by blast
    then show ?thesis
    proof cases
      case code
      with Some Cons [of "r\<lparr>code := dictionary_entry vd (get_value data_row i) ''D8''\<rparr>"]
      show ?thesis by (simp add: Let_def look)
    next
      case status
      with Some Cons [of "r\<lparr>status := dictionary_entry vd (get_value data_row i) ''D9''\<rparr>"]
      show ?thesis by (simp add: Let_def look)
    next
      case skip
      with Some Cons [of r] show ?thesis by (auto simp: Let_def)
    qed
  qed
qed

lemma as_int_epoch: "as_int v = Some i \<Longrightarrow> is_epoch_ms v = (1000000000000 < i)"
  by (cases v) (auto simp: is_epoch_ms_def)


lemma detail_row_typed:
  assumes vd: "typed_dicts vd"
      and idx: "as_int (get_value data_row 0) = Some i" "0 \<le> i"
      and inst: "dictionary_entry vd (get_value data_row 0) ''D0'' \<noteq> []"
      and pv: "3 \<le> length (production_values lib data_row)"
  shows "\<exists>r R. detail_row lib data_row vd csv = Inr (Some r) \<and>
           installation R = dictionary_entry vd (get_value data_row 0) ''D0'' \<and>
           type R = dictionary_entry vd (get_value data_row 2) ''D2'' \<and>
           oil_production R = oil_production csv \<and>
           gas_production R = gas_production csv \<and>
           oil_equivalents_boe R = oil_equivalents_boe csv \<and>
           quantity R = quantity csv \<and>
           installation r = installation (assign_production R (production_values lib data_row)) \<and>
           type r = type (assign_production R (production_values lib data_row)) \<and>
           oil_production r = oil_production (assign_production R (production_values lib data_row)) \<and>
           gas_production r = gas_production (assign_production R (production_values lib data_row)) \<and>
           oil_equivalents_boe r =
             oil_equivalents_boe (assign_production R (production_values lib data_row)) \<and>
           quantity r = quantity (assign_production R (production_values lib data_row))"
proof -
  let ?e = "\<lambda>k name. dictionary_entry vd (get_value data_row k) name"
  let ?R = "csv\<lparr>installation := ?e 0 ''D0'', operator := ?e 1 ''D1'', type := ?e 2 ''D2'',
                estado := ?e 3 ''D3'', city := ?e 4 ''D4'', atendimento_campo := ?e 5 ''D5'',
                campo := ?e 6 ''D6''\<rparr>"
  let ?A = "assign_production ?R (production_values lib data_row)"
  from code_status_typed [OF vd, of data_row "[7..<min (length data_row) 11]" ?A]
  obtain r where cs: "code_status vd data_row [7..<min (length data_row) 11] ?A = Inr r"
    and keep: "installation r = installation ?A" "type r = type ?A"
      "oil_production r = oil_production ?A" "gas_production r = gas_production ?A"
      "oil_equivalents_boe r = oil_equivalents_boe ?A" "quantity r = quantity ?A"
    by blast
  have instA: "installation ?A = ?e 0 ''D0''"
    by (simp add: assign_production_keeps)
  from assign_production_populated [OF pv production_values_nonzero, of ?R]
  have pop: "truthy (oil_production r) \<or> truthy (gas_production r) \<or>
             truthy (oil_equivalents_boe r)"
    by (simp only: keep)
  have final: "installation r \<noteq> []" using keep(1) instA inst by simp
  have d: "detail_row lib data_row vd csv = Inr (Some r)"
    unfolding detail_row_def Let_def
    using idx inst cs final pop
    by (simp add: lookup_typed [OF vd])
  have R: "installation ?R = ?e 0 ''D0''" "type ?R = ?e 2 ''D2''"
    "oil_production ?R = oil_production csv" "gas_production ?R = gas_production csv"
    "oil_equivalents_boe ?R = oil_equivalents_boe csv" "quantity ?R = quantity csv"
    by simp_all
  from d R keep show ?thesis by blast
qed


text \<open>
  Claim C5. Take a detail row: at least 9 elements, element 0 an integer index that is not
  negative (and not above \<open>10^12\<close>) and resolves to a non-empty installation, over a value
  dictionary of the decoder's type. When its list \<open>vals\<close> of non-zero production values has at
  least 3 entries, the decoder returns a record \<open>r\<close>, and:
  \<^item> if position \<open>k\<close> holds the first entry that is an integer \<open>n\<close> in [1, 1000], then
    quantity is \<open>n\<close>; with at least 2 entries before \<open>k\<close> the first two are oil_production and
    gas_production; with exactly 1 entry before \<open>k\<close> it is gas_production when the resolved
    type text contains the word gas, accented or not, in any case, and oil_production
    otherwise; and the entry after \<open>k\<close>, if any, is oil_equivalents_boe;
  \<^item> if no entry is an integer in [1, 1000], the first three entries are oil_production,
    gas_production and oil_equivalents_boe.
  In particular the values 120.5, 30.2, 5, 800.1 give quantity 5, oil_production 120.5,
  gas_production 30.2 and oil_equivalents_boe 800.1, whatever the type text.
\<close>

theorem detail_row_production_assignment:
  assumes vd: "typed_dicts value_dicts"
      and len: "9 \<le> length data_row"
      and idx: "as_int (data_row ! 0) = Some i" "0 \<le> i" "i \<le> 1000000000000"
      and inst: "dictionary_entry value_dicts (data_row ! 0) ''D0'' \<noteq> []"
      and pv: "production_values lib data_row = vals" "3 \<le> length vals"
  shows "\<exists>r. map_data_row_to_csv lib data_row value_dicts timestamp row_date = Inr (Some r) \<and>
           installation r = dictionary_entry value_dicts (data_row ! 0) ''D0'' \<and>
           type r = dictionary_entry value_dicts (data_row ! 2) ''D2'' \<and>
           (\<forall>k n. k < length vals \<and> quantity_int (vals ! k) = Some n \<and>
                  (\<forall>j<k. quantity_int (vals ! j) = None) \<longrightarrow>
              quantity r = JInt n \<and>
              (2 \<le> k \<longrightarrow> oil_production r = JFloat (vals ! 0) \<and>
                         gas_production r = JFloat (vals ! 1)) \<and>
              (k = 1 \<and> is_gas_type (type r) \<longrightarrow>
                 gas_production r = JFloat (vals ! 0) \<and> oil_production r = JStr '''') \<and>
              (k = 1 \<and> \<not> is_gas_type (type r) \<longrightarrow>
                 oil_production r = JFloat (vals ! 0) \<and> gas_production r = JStr '''') \<and>
              (k + 1 < length vals \<longrightarrow> oil_equivalents_boe r = JFloat (vals ! (k + 1)))) \<and>
           ((\<forall>j<length vals. quantity_int (vals ! j) = None) \<longrightarrow>
              oil_production r = JFloat (vals ! 0) \<and>
              gas_production r = JFloat (vals ! 1) \<and>
              oil_equivalents_boe r = JFloat (vals ! 2)) \<and>
           (vals = [Fin (241 / 2), Fin (151 / 5), Fin 5, Fin (8001 / 10)] \<longrightarrow>
              quantity r = JInt 5 \<and> oil_production r = JFloat (Fin (241 / 2)) \<and>
              gas_production r = JFloat (Fin (151 / 5)) \<and>
              oil_equivalents_boe r = JFloat (Fin (8001 / 10)))"
proof -
  from len have "0 < length data_row" "2 < length data_row" by linarith+
  then have gv: "get_value data_row 0 = data_row ! 0" "get_value data_row 2 = data_row ! 2"
    by (simp_all add: get_value_def)
  let ?csv = "init_row timestamp row_date"
  from detail_row_typed [OF vd, of data_row i lib ?csv] idx inst pv
  obtain r R where
        d: "detail_row lib data_row value_dicts ?csv = Inr (Some r)"
    and R: "type R = dictionary_entry value_dicts (data_row ! 2) ''D2''"
           "oil_production R = JStr ''''" "gas_production R = JStr ''''"
    and r: "installation r = installation (assign_production R vals)"
           "type r = type (assign_production R vals)"
           "oil_production r = oil_production (assign_production R vals)"
           "gas_production r = gas_production (assign_production R vals)"
           "oil_equivalents_boe r = oil_equivalents_boe (assign_production R vals)"
           "quantity r = quantity (assign_production R vals)"
    and instR: "installation R = dictionary_entry value_dicts (data_row ! 0) ''D0''"
    unfolding gv by (auto simp: init_row_def)
  from idx have ne: "\<not> is_epoch_ms (data_row ! 0)"
    by (simp add: as_int_epoch)
  from len have shape: "length data_row \<noteq> 0" "length data_row \<noteq> 1" "length data_row \<noteq> 4"
    by linarith+
  from len d ne shape have m:
    "map_data_row_to_csv lib data_row value_dicts timestamp row_date = Inr (Some r)"
    by (simp add: map_data_row_to_csv_def Let_def gv)
  have i1: "installation r = dictionary_entry value_dicts (data_row ! 0) ''D0''"
    by (simp add: r(1) assign_production_keeps instR)
  have t1: "type r = dictionary_entry value_dicts (data_row ! 2) ''D2''"
    by (simp add: r(2) assign_production_keeps R(1))
  have tR: "type R = type r"
    by (simp add: r(2) assign_production_keeps)
  have found: "quantity r = JInt n \<and>
              (2 \<le> k \<longrightarrow> oil_production r = JFloat (vals ! 0) \<and>
                         gas_production r = JFloat (vals ! 1)) \<and>
              (k = 1 \<and> is_gas_type (type r) \<longrightarrow>
                 gas_production r = JFloat (vals ! 0) \<and> oil_production r = JStr '''') \<and>
              (k = 1 \<and> \<not> is_gas_type (type r) \<longrightarrow>
                 oil_production r = JFloat (vals ! 0) \<and> gas_production r = JStr '''') \<and>
              (k + 1 < length vals \<longrightarrow> oil_equivalents_boe r = JFloat (vals ! (k + 1)))"
    if "k < length vals \<and> quantity_int (vals ! k) = Some n \<and>
        (\<forall>j<k. quantity_int (vals ! j) = None)" for k n
  proof -
    from that have "find_quantity vals = Some (k, n)"
      using find_quantity_first by blast
    from assign_production_found [OF pv(2) this, of R] show ?thesis
      unfolding r tR R by blast
  qed
  have none: "oil_production r = JFloat (vals ! 0) \<and>
              gas_production r = JFloat (vals ! 1) \<and>
              oil_equivalents_boe r = JFloat (vals ! 2)"
    if "\<forall>j<length vals. quantity_int (vals ! j) = None"
  proof -
    from that have "find_quantity vals = None" by (simp add: find_quantity_None_iff)
    from assign_production_not_found [OF pv(2) this, of R] show ?thesis
      unfolding r by blast
  qed
  have example: "quantity r = JInt 5 \<and> oil_production r = JFloat (Fin (241 / 2)) \<and>
              gas_production r = JFloat (Fin (151 / 5)) \<and>
              oil_equivalents_boe r = JFloat (Fin (8001 / 10))"
    if v: "vals = [Fin (241 / 2), Fin (151 / 5), Fin 5, Fin (8001 / 10)]"
  proof -
    have q0: "quantity_int (Fin (241 / 2)) = None" "quantity_int (Fin (151 / 5)) = None"
             "quantity_int (Fin 5) = Some 5"
      by code_simp+
    have q: "quantity_int (vals ! 0) = None" "quantity_int (vals ! 1) = None"
            "quantity_int (vals ! 2) = Some 5"
      unfolding v using q0 by simp_all
    have "2 < length vals \<and> quantity_int (vals ! 2) = Some 5 \<and>
          (\<forall>j<2. quantity_int (vals ! j) = None)"
      using q v by (auto simp: less_Suc_eq numeral_2_eq_2)
    from found [OF this] show ?thesis by (simp add: v)
  qed
  from m i1 t1 found none example show ?thesis by blast
qed


theorem detail_row_production_assignment_witness:
  "typed_dicts detail_dicts \<and> 9 \<le> length detail_example \<and>
   as_int (detail_example ! 0) = Some 2 \<and>
   dictionary_entry detail_dicts (detail_example ! 0) ''D0'' = ''P-1'' \<and>
   production_values exact_utc detail_example =
     [Fin (241 / 2), Fin (151 / 5), Fin 5, Fin (8001 / 10)] \<and>
   (\<exists>r. map_data_row_to_csv exact_utc detail_example detail_dicts (JStr ''t'') ''2024-01-01'' =
          Inr (Some r) \<and>
        installation r = ''P-1'' \<and>
        type r = [CHR ''G'', char_of (225 :: nat), CHR ''s''] \<and>
        quantity r = JInt 5 \<and>
        oil_production r = JFloat (Fin (241 / 2)) \<and>
        gas_production r = JFloat (Fin (151 / 5)) \<and>
        oil_equivalents_boe r = JFloat (Fin (8001 / 10)))"
proof -
  have a: "typed_dicts detail_dicts" by code_simp
  have b: "9 \<le> length detail_example" by code_simp
  have c: "as_int (detail_example ! 0) = Some 2" by code_simp
  have d: "dictionary_entry detail_dicts (detail_example ! 0) ''D0'' = ''P-1''" by code_simp
  then have d': "dictionary_entry detail_dicts (detail_example ! 0) ''D0'' \<noteq> []" by simp
  have e: "production_values exact_utc detail_example =
             [Fin (241 / 2), Fin (151 / 5), Fin 5, Fin (8001 / 10)]"
    by code_simp
  have f: "3 \<le> length [Fin (241 / 2), Fin (151 / 5), Fin 5, Fin (8001 / 10)]" by simp
  have t: "dictionary_entry detail_dicts (detail_example ! 2) ''D2'' =
             [CHR ''G'', char_of (225 :: nat), CHR ''s'']"
    by code_simp
  from detail_row_production_assignment
         [OF a b c _ _ d' e f, of "JStr ''t''" "''2024-01-01''"]
  obtain r where
    "map_data_row_to_csv exact_utc detail_example detail_dicts (JStr ''t'') ''2024-01-01'' =
       Inr (Some r)"
    "installation r = dictionary_entry detail_dicts (detail_example ! 0) ''D0''"
    "type r = dictionary_entry detail_dicts (detail_example ! 2) ''D2''"
    "quantity r = JInt 5 \<and> oil_production r = JFloat (Fin (241 / 2)) \<and>
     gas_production r = JFloat (Fin (151 / 5)) \<and>
     oil_equivalents_boe r = JFloat (Fin (8001 / 10))"
    by auto
  with a b c d e t show ?thesis by auto
qed

end
